theory Spec2Isabelle
  imports Complex_Main "HOL-Library.Word"
begin

unbundle bit_operations_syntax

section \<open>Pandar40 raw data accessor (rawdata.cc)\<close>

subsection \<open>Constants of the packet layout\<close>

text \<open>
  The constants \<open>BLOCKS_PER_PACKET\<close>, \<open>LASER_COUNT\<close>, \<open>SOB_ANGLE_SIZE\<close>,
  \<open>RAW_MEASURE_SIZE\<close>, \<open>RESERVE_SIZE\<close>, \<open>REVOLUTION_SIZE\<close>, \<open>TIMESTAMP_SIZE\<close>,
  \<open>FACTORY_ID_SIZE\<close> and \<open>ROTATION_MAX_UNITS\<close> are declared in the header
  \<open>rawdata.h\<close>, which is not among the sources. They are the fields of a record that
  every function below takes as its first argument, so each theorem holds for whatever
  values the header gives them.
\<close>

record layout =
  BLOCKS_PER_PACKET :: nat
  LASER_COUNT :: nat
  SOB_ANGLE_SIZE :: nat
  RAW_MEASURE_SIZE :: nat
  RESERVE_SIZE :: nat
  REVOLUTION_SIZE :: nat
  TIMESTAMP_SIZE :: nat
  FACTORY_ID_SIZE :: nat
  ROTATION_MAX_UNITS :: nat

text \<open>
  Modelled from the spec: \<open>BLOCK_SIZE\<close> and \<open>PACKET_SIZE\<close> of the missing header.
  The wire size is block count times (start-of-block and azimuth plus laser count times
  one measurement) plus reserved, revolution, timestamp and factory bytes.
\<close>

definition BLOCK_SIZE :: "layout \<Rightarrow> nat" where
  "BLOCK_SIZE K = SOB_ANGLE_SIZE K + LASER_COUNT K * RAW_MEASURE_SIZE K"

definition PACKET_SIZE :: "layout \<Rightarrow> nat" where
  "PACKET_SIZE K =
     BLOCKS_PER_PACKET K * BLOCK_SIZE K
       + RESERVE_SIZE K + REVOLUTION_SIZE K + TIMESTAMP_SIZE K + FACTORY_ID_SIZE K"

text \<open>
  Modelled from the spec: the field widths the spec fixes (2-byte start-of-block and
  2-byte azimuth, 3-byte range and 2-byte reflectivity, 2-byte revolution, 4-byte
  timestamp, 2 factory bytes). Block count, laser count, the size of the reserved
  region and the number of azimuth units stay free.
\<close>

definition spec_widths :: "layout \<Rightarrow> bool" where
  "spec_widths K =
     (SOB_ANGLE_SIZE K = 4 \<and> RAW_MEASURE_SIZE K = 5 \<and> REVOLUTION_SIZE K = 2
      \<and> TIMESTAMP_SIZE K = 4 \<and> FACTORY_ID_SIZE K = 2)"

text \<open>
  The layout of the device as the comments of the parser give it (\<open>6x BLOCKs\<close>,
  \<open>40x measures\<close>), with the spec's widths and its 36000 azimuth units; and the
  one-block, two-laser layout of the spec's example scenario. The size of the reserved
  region is in neither the sources nor the spec: eight bytes are taken here, which makes
  the wire size 1240 bytes. The two layouts serve the concrete runs only; no theorem
  about the program depends on them.
\<close>

definition pandar40 :: layout where
  "pandar40 = \<lparr>BLOCKS_PER_PACKET = 6, LASER_COUNT = 40, SOB_ANGLE_SIZE = 4,
     RAW_MEASURE_SIZE = 5, RESERVE_SIZE = 8, REVOLUTION_SIZE = 2, TIMESTAMP_SIZE = 4,
     FACTORY_ID_SIZE = 2, ROTATION_MAX_UNITS = 36000\<rparr>"

definition example_layout :: layout where
  "example_layout = \<lparr>BLOCKS_PER_PACKET = 1, LASER_COUNT = 2, SOB_ANGLE_SIZE = 4,
     RAW_MEASURE_SIZE = 5, RESERVE_SIZE = 8, REVOLUTION_SIZE = 2, TIMESTAMP_SIZE = 4,
     FACTORY_ID_SIZE = 2, ROTATION_MAX_UNITS = 36000\<rparr>"

subsection \<open>Raw packet data\<close>

text \<open>
  \<open>raw_measure_t\<close>, \<open>raw_block_t\<close> and \<open>raw_packet_t\<close>, declared in the missing
  header, with the field widths of the spec's data model: the range is an unsigned
  24-bit value, held in 32 bits; start-of-block, azimuth, reflectivity and revolution are
  unsigned 16-bit values; the timestamp is an unsigned 32-bit value. The fixed-size arrays
  \<open>measures[LASER_COUNT]\<close>, \<open>blocks[BLOCKS_PER_PACKET]\<close> and \<open>factory[2]\<close> are
  functions from the index; the code reads and writes them below the declared size only.
  The fields \<open>range\<close> and \<open>measures\<close> carry a prime, the plain names
  being constants of HOL.
\<close>

record raw_measure_t =
  range' :: "32 word"
  reflectivity :: "16 word"

record raw_block_t =
  sob :: "16 word"
  azimuth :: "16 word"
  measures' :: "nat \<Rightarrow> raw_measure_t"

record raw_packet_t =
  blocks :: "nat \<Rightarrow> raw_block_t"
  revolution :: "16 word"
  timestamp :: "32 word"
  factory :: "nat \<Rightarrow> 8 word"

subsection \<open>parseRawData\<close>

text \<open>
  A byte of the buffer promoted to \<open>int\<close> and masked, \<open>buf[index] & 0xff\<close>.
\<close>

definition byte_at :: "8 word list \<Rightarrow> nat \<Rightarrow> 32 word" where
  "byte_at buf index = ucast (buf ! index) AND 0xff"

text \<open>
  The body of the inner loop (lines 158 to 170): the measurement read at \<open>index\<close>,
  zeroed when it is the sentinel pair or its range exceeds \<open>200 * 1000 / 2\<close>.
\<close>

definition read_measure :: "8 word list \<Rightarrow> nat \<Rightarrow> raw_measure_t" where
  "read_measure buf index =
     (let measure = \<lparr>range' = byte_at buf index
                               OR push_bit 8 (byte_at buf (index + 1))
                               OR push_bit 16 (byte_at buf (index + 2)),
                      reflectivity = ucast (byte_at buf (index + 3)
                               OR push_bit 8 (byte_at buf (index + 4)))\<rparr>
      in if (range' measure = 0x010101 \<and> reflectivity measure = 0x0101)
            \<or> range' measure > 200 * 1000 div 2
         then measure\<lparr>range' := 0, reflectivity := 0\<rparr>
         else measure)"

text \<open>The inner loop over the laser channels, \<open>j\<close> and \<open>index\<close> running.\<close>

function measures_loop ::
  "layout \<Rightarrow> 8 word list \<Rightarrow> nat \<Rightarrow> nat \<Rightarrow> raw_block_t \<Rightarrow> nat \<times> raw_block_t" where
  "measures_loop K buf j index block =
     (if j < LASER_COUNT K
      then measures_loop K buf (j + 1) (index + RAW_MEASURE_SIZE K)
             (block\<lparr>measures' := (measures' block)(j := read_measure buf index)\<rparr>)
      else (index, block))"
  by pat_completeness auto
termination
  by (relation "measure (\<lambda>(K, buf, j, index, block). LASER_COUNT K - j)") auto

text \<open>The outer loop over the blocks.\<close>

function blocks_loop ::
  "layout \<Rightarrow> 8 word list \<Rightarrow> nat \<Rightarrow> nat \<Rightarrow> raw_packet_t \<Rightarrow> nat \<times> raw_packet_t" where
  "blocks_loop K buf i index packet =
     (if i < BLOCKS_PER_PACKET K
      then
        (let block = blocks packet i;
             block = block\<lparr>sob := ucast (byte_at buf index
                                     OR push_bit 8 (byte_at buf (index + 1)))\<rparr>;
             block = block\<lparr>azimuth := ucast (byte_at buf (index + 2)
                                     OR push_bit 8 (byte_at buf (index + 3)))\<rparr>;
             index = index + SOB_ANGLE_SIZE K;
             (index, block) = measures_loop K buf 0 index block
         in blocks_loop K buf (i + 1) index (packet\<lparr>blocks := (blocks packet)(i := block)\<rparr>))
      else (index, packet))"
  by pat_completeness auto
termination
  by (relation "measure (\<lambda>(K, buf, i, index, packet). BLOCKS_PER_PACKET K - i)") auto

text \<open>
  \<open>parseRawData\<close>: the buffer and its length \<open>len\<close> are one list, as \<open>unpack\<close> passes
  them; the result is the return code and the packet behind the pointer after the call.
\<close>

definition parseRawData :: "layout \<Rightarrow> raw_packet_t \<Rightarrow> 8 word list \<Rightarrow> int \<times> raw_packet_t" where
  "parseRawData K packet buf =
     (if length buf \<noteq> PACKET_SIZE K then (- 1, packet)
      else
        (let (index, packet) = blocks_loop K buf 0 0 packet;
             index = index + RESERVE_SIZE K;
             packet = packet\<lparr>revolution := ucast (byte_at buf index
                                     OR push_bit 8 (byte_at buf (index + 1)))\<rparr>;
             index = index + REVOLUTION_SIZE K;
             packet = packet\<lparr>timestamp := byte_at buf index
                                     OR push_bit 8 (byte_at buf (index + 1))
                                     OR push_bit 16 (byte_at buf (index + 2))
                                     OR push_bit 24 (byte_at buf (index + 3))\<rparr>;
             index = index + TIMESTAMP_SIZE K;
             packet = packet\<lparr>factory := (factory packet)(0 := ucast (byte_at buf index))\<rparr>;
             packet = packet\<lparr>factory := (factory packet)(1 := ucast (byte_at buf (index + 1)))\<rparr>
         in (0, packet)))"

subsection \<open>Floating-point arithmetic\<close>

text \<open>
  The arithmetic of \<open>double\<close> and \<open>float\<close> belongs to the platform, not to the
  program. It is a record of operations on a type \<open>'f\<close> of floating-point values that
  every function below takes as an argument, and the theorems hold for every such record.
  A \<open>float\<close> is a \<open>double\<close> that \<open>to_float\<close> leaves alone, so one type serves both;
  \<open>to_float\<close> is \<open>static_cast<float>\<close>. \<open>f_of_int\<close> converts an integer,
  \<open>f_lit\<close> is the value of a decimal literal, \<open>f_lt\<close> and \<open>f_eq\<close> are \<open><\<close> and
  \<open>==\<close>, \<open>f_to_int\<close> is the conversion of a \<open>double\<close> to \<open>int\<close>, \<open>from_degrees\<close>
  is \<open>angles::from_degrees\<close> and \<open>f_isnan\<close> is \<open>pcl_isnan\<close>. \<open>f_cos\<close> and
  \<open>f_sin\<close> are \<open>std::cos\<close> and \<open>std::sin\<close> on a \<open>double\<close>, \<open>f_cosf\<close> and
  \<open>f_sinf\<close> are \<open>cosf\<close> and \<open>sinf\<close> on a \<open>float\<close>.
\<close>

record 'f fp_ops =
  f_of_int :: "int \<Rightarrow> 'f"
  f_lit :: "rat \<Rightarrow> 'f"
  M_PI :: "'f"
  f_add :: "'f \<Rightarrow> 'f \<Rightarrow> 'f"
  f_sub :: "'f \<Rightarrow> 'f \<Rightarrow> 'f"
  f_mul :: "'f \<Rightarrow> 'f \<Rightarrow> 'f"
  f_div :: "'f \<Rightarrow> 'f \<Rightarrow> 'f"
  f_fmod :: "'f \<Rightarrow> 'f \<Rightarrow> 'f"
  f_lt :: "'f \<Rightarrow> 'f \<Rightarrow> bool"
  f_eq :: "'f \<Rightarrow> 'f \<Rightarrow> bool"
  f_cos :: "'f \<Rightarrow> 'f"
  f_sin :: "'f \<Rightarrow> 'f"
  f_cosf :: "'f \<Rightarrow> 'f"
  f_sinf :: "'f \<Rightarrow> 'f"
  from_degrees :: "'f \<Rightarrow> 'f"
  to_float :: "'f \<Rightarrow> 'f"
  f_to_int :: "'f \<Rightarrow> int"
  quiet_NaN :: "'f"
  f_isnan :: "'f \<Rightarrow> bool"

text \<open>\<open>a > b\<close> is \<open>b < a\<close>, also on a NaN, where both are false.\<close>

definition f_gt :: "'f fp_ops \<Rightarrow> 'f \<Rightarrow> 'f \<Rightarrow> bool" where
  "f_gt ops a b = f_lt ops b a"

subsection \<open>State of the accessor, points and clouds\<close>

text \<open>
  \<open>Config\<close>, \<open>PandarLaserCorrection\<close>, \<open>Calibration\<close> and the members of \<open>RawData\<close>
  are declared in headers that are not among the sources; the fields are those the code
  uses. The lookup tables are arrays of \<open>ROTATION_MAX_UNITS\<close> entries, functions from the
  index here, with the bound checked where the code indexes them. The members
  \<open>config_\<close>, \<open>calibration_\<close>, \<open>cos_lookup_table_\<close> and \<open>sin_lookup_table_\<close> lose
  their trailing underscore, which a name of Isabelle cannot end with.
\<close>

record 'f Config =
  calibrationFile :: string
  min_range :: "'f"
  max_range :: "'f"
  tmp_min_angle :: "'f"
  tmp_max_angle :: "'f"
  min_angle :: int
  max_angle :: int

record 'f PandarLaserCorrection =
  azimuthCorrection :: "'f"
  distanceCorrection :: "'f"
  cosVertCorrection :: "'f"
  sinVertCorrection :: "'f"
  horizontalOffsetCorrection :: "'f"
  verticalOffsetCorrection :: "'f"

record 'f Calibration =
  laser_corrections :: "nat \<Rightarrow> 'f PandarLaserCorrection"
  initialized :: bool

record 'f RawData =
  config :: "'f Config"
  calibration :: "'f Calibration"
  cos_lookup_table :: "nat \<Rightarrow> 'f"
  sin_lookup_table :: "nat \<Rightarrow> 'f"

record 'f PPoint =
  point_x :: "'f"
  point_y :: "'f"
  point_z :: "'f"
  intensity :: "'f"
  ring :: nat

record 'f PPointCloud =
  points :: "'f PPoint list"
  width :: "32 word"

text \<open>
  Indexing a lookup table outside its bounds is undefined behaviour; the model stops
  with this fault.
\<close>

datatype fault = TableIndexOutOfRange

subsection \<open>setParameters\<close>

definition setParameters ::
  "'f fp_ops \<Rightarrow> 'f \<Rightarrow> 'f \<Rightarrow> 'f \<Rightarrow> 'f \<Rightarrow> 'f RawData \<Rightarrow> 'f RawData" where
  "setParameters ops min_range_arg max_range_arg view_direction view_width this =
     (let two_pi = f_mul ops (f_of_int ops 2) (M_PI ops);
          c = config this;
          c = c\<lparr>min_range := min_range_arg\<rparr>;
          c = c\<lparr>max_range := max_range_arg\<rparr>;
          c = c\<lparr>tmp_min_angle :=
                  f_add ops view_direction (f_div ops view_width (f_of_int ops 2))\<rparr>;
          c = c\<lparr>tmp_max_angle :=
                  f_sub ops view_direction (f_div ops view_width (f_of_int ops 2))\<rparr>;
          c = c\<lparr>tmp_min_angle :=
                  f_fmod ops (f_add ops (f_fmod ops (tmp_min_angle c) two_pi) two_pi) two_pi\<rparr>;
          c = c\<lparr>tmp_max_angle :=
                  f_fmod ops (f_add ops (f_fmod ops (tmp_max_angle c) two_pi) two_pi) two_pi\<rparr>;
          c = c\<lparr>min_angle := f_to_int ops
                  (f_add ops
                     (f_div ops
                        (f_mul ops
                           (f_mul ops (f_of_int ops 100) (f_sub ops two_pi (tmp_min_angle c)))
                           (f_of_int ops 180))
                        (M_PI ops))
                     (f_lit ops 0.5))\<rparr>;
          c = c\<lparr>max_angle := f_to_int ops
                  (f_add ops
                     (f_div ops
                        (f_mul ops
                           (f_mul ops (f_of_int ops 100) (f_sub ops two_pi (tmp_max_angle c)))
                           (f_of_int ops 180))
                        (M_PI ops))
                     (f_lit ops 0.5))\<rparr>;
          c = (if min_angle c = max_angle c
               then c\<lparr>min_angle := 0, max_angle := 36000\<rparr> else c)
      in this\<lparr>config := c\<rparr>)"

subsection \<open>setup\<close>




subsection \<open>computeXYZIR\<close>

text \<open>Line 193: \<open>laserReturn.range * 0.002\<close>.\<close>

definition distance_of :: "'f fp_ops \<Rightarrow> raw_measure_t \<Rightarrow> 'f" where
  "distance_of ops laserReturn =
     f_mul ops (f_of_int ops (uint (range' laserReturn))) (f_lit ops 0.002)"

text \<open>Line 195: \<open>static_cast<float> (laserReturn.reflectivity >> 8)\<close>.\<close>

definition intensity_of :: "'f fp_ops \<Rightarrow> raw_measure_t \<Rightarrow> 'f" where
  "intensity_of ops laserReturn =
     to_float ops (f_of_int ops (uint (drop_bit 8 (reflectivity laserReturn))))"

text \<open>Line 196: the test of the range window.\<close>

definition outside_window :: "'f fp_ops \<Rightarrow> 'f RawData \<Rightarrow> 'f \<Rightarrow> bool" where
  "outside_window ops this distanceM =
     (f_lt ops distanceM (min_range (config this))
      \<or> f_gt ops distanceM (max_range (config this)))"

text \<open>
  Lines 201 to 211: cosine and sine of the azimuth, from the tables when the laser has no
  azimuth correction and computed otherwise.
\<close>

definition azimuth_trig ::
  "'f fp_ops \<Rightarrow> layout \<Rightarrow> 'f RawData \<Rightarrow> int \<Rightarrow> 'f PandarLaserCorrection
     \<Rightarrow> fault + ('f \<times> 'f)" where
  "azimuth_trig ops K this azimuth_arg correction =
     (if f_eq ops (azimuthCorrection correction) (f_of_int ops 0)
      then
        (if 0 \<le> azimuth_arg \<and> azimuth_arg < int (ROTATION_MAX_UNITS K)
         then Inr (cos_lookup_table this (nat azimuth_arg),
                   sin_lookup_table this (nat azimuth_arg))
         else Inl TableIndexOutOfRange)
      else
        (let azimuthInRadians = from_degrees ops
               (f_add ops (f_div ops (f_of_int ops azimuth_arg) (f_lit ops 100.0))
                  (azimuthCorrection correction))
         in Inr (f_cos ops azimuthInRadians, f_sin ops azimuthInRadians)))"

text \<open>Lines 213 to 219: the coordinates as assigned to the point.\<close>

definition cartesian ::
  "'f fp_ops \<Rightarrow> 'f \<Rightarrow> 'f \<Rightarrow> 'f \<Rightarrow> 'f PandarLaserCorrection \<Rightarrow> 'f \<times> 'f \<times> 'f" where
  "cartesian ops distanceM cos_azimuth sin_azimuth correction =
     (let distanceM = f_add ops distanceM (distanceCorrection correction);
          xyDistance = f_mul ops distanceM (cosVertCorrection correction)
      in (to_float ops (f_sub ops (f_mul ops xyDistance sin_azimuth)
                          (f_mul ops (horizontalOffsetCorrection correction) cos_azimuth)),
          to_float ops (f_add ops (f_mul ops xyDistance cos_azimuth)
                          (f_mul ops (horizontalOffsetCorrection correction) sin_azimuth)),
          to_float ops (f_add ops (f_mul ops distanceM (sinVertCorrection correction))
                          (verticalOffsetCorrection correction))))"

text \<open>Line 220: \<open>point.x == 0 && point.y == 0 && point.z == 0\<close>.\<close>

definition at_origin :: "'f fp_ops \<Rightarrow> 'f \<times> 'f \<times> 'f \<Rightarrow> bool" where
  "at_origin ops xyz =
     (case xyz of (x, y, z) \<Rightarrow>
        f_eq ops x (f_of_int ops 0) \<and> f_eq ops y (f_of_int ops 0) \<and> f_eq ops z (f_of_int ops 0))"

definition set_nan :: "'f fp_ops \<Rightarrow> 'f PPoint \<Rightarrow> 'f PPoint" where
  "set_nan ops point =
     point\<lparr>point_z := quiet_NaN ops, point_y := quiet_NaN ops, point_x := quiet_NaN ops\<rparr>"

definition computeXYZIR ::
  "'f fp_ops \<Rightarrow> layout \<Rightarrow> 'f RawData \<Rightarrow> 'f PPoint \<Rightarrow> int \<Rightarrow> raw_measure_t
     \<Rightarrow> 'f PandarLaserCorrection \<Rightarrow> fault + 'f PPoint" where
  "computeXYZIR ops K this point azimuth_arg laserReturn correction =
     (let distanceM = distance_of ops laserReturn;
          point = point\<lparr>intensity := intensity_of ops laserReturn\<rparr>
      in if outside_window ops this distanceM then Inr (set_nan ops point)
         else
           (case azimuth_trig ops K this azimuth_arg correction of
              Inl e \<Rightarrow> Inl e
            | Inr (cos_azimuth, sin_azimuth) \<Rightarrow>
                (case cartesian ops distanceM cos_azimuth sin_azimuth correction of
                   (x, y, z) \<Rightarrow>
                     (let point = point\<lparr>point_x := x, point_y := y, point_z := z\<rparr>
                      in if at_origin ops (x, y, z) then Inr (set_nan ops point)
                         else Inr point))))"

subsection \<open>toPointClouds and unpack\<close>

text \<open>
  The local \<open>PPoint xyzir\<close> is not initialised; \<open>computeXYZIR\<close> and the assignment of
  \<open>ring\<close> overwrite every field before the point is used.
\<close>

definition fresh_point :: "'f fp_ops \<Rightarrow> 'f PPoint" where
  "fresh_point ops =
     \<lparr>point_x = quiet_NaN ops, point_y = quiet_NaN ops, point_z = quiet_NaN ops,
      intensity = quiet_NaN ops, ring = 0\<rparr>"

text \<open>The body of the inner loop of \<open>toPointClouds\<close> (lines 232 to 241).\<close>

definition laser_body ::
  "'f fp_ops \<Rightarrow> layout \<Rightarrow> 'f RawData \<Rightarrow> raw_block_t \<Rightarrow> nat \<Rightarrow> 'f PPointCloud
     \<Rightarrow> fault + 'f PPointCloud" where
  "laser_body ops K this firing_data j pc =
     (case computeXYZIR ops K this (fresh_point ops) (uint (azimuth firing_data))
             (measures' firing_data j) (laser_corrections (calibration this) j) of
        Inl e \<Rightarrow> Inl e
      | Inr xyzir \<Rightarrow>
          if f_isnan ops (point_x xyzir) \<or> f_isnan ops (point_y xyzir)
             \<or> f_isnan ops (point_z xyzir)
          then Inr pc
          else Inr (pc\<lparr>points := points pc @ [xyzir\<lparr>ring := j\<rparr>], width := width pc + 1\<rparr>))"

function lasers_loop ::
  "'f fp_ops \<Rightarrow> layout \<Rightarrow> 'f RawData \<Rightarrow> raw_block_t \<Rightarrow> nat \<Rightarrow> 'f PPointCloud
     \<Rightarrow> fault + 'f PPointCloud" where
  "lasers_loop ops K this firing_data j pc =
     (if j < LASER_COUNT K
      then (case laser_body ops K this firing_data j pc of
              Inl e \<Rightarrow> Inl e
            | Inr pc' \<Rightarrow> lasers_loop ops K this firing_data (j + 1) pc')
      else Inr pc)"
  by pat_completeness auto
termination
  by (relation "measure (\<lambda>(ops, K, this, firing_data, j, pc). LASER_COUNT K - j)") auto

function firings_loop ::
  "'f fp_ops \<Rightarrow> layout \<Rightarrow> 'f RawData \<Rightarrow> raw_packet_t \<Rightarrow> nat \<Rightarrow> 'f PPointCloud
     \<Rightarrow> fault + 'f PPointCloud" where
  "firings_loop ops K this packet i pc =
     (if i < BLOCKS_PER_PACKET K
      then (case lasers_loop ops K this (blocks packet i) 0 pc of
              Inl e \<Rightarrow> Inl e
            | Inr pc' \<Rightarrow> firings_loop ops K this packet (i + 1) pc')
      else Inr pc)"
  by pat_completeness auto
termination
  by (relation "measure (\<lambda>(ops, K, this, packet, i, pc). BLOCKS_PER_PACKET K - i)") auto

definition toPointClouds ::
  "'f fp_ops \<Rightarrow> layout \<Rightarrow> 'f RawData \<Rightarrow> raw_packet_t \<Rightarrow> 'f PPointCloud
     \<Rightarrow> fault + 'f PPointCloud" where
  "toPointClouds ops K this packet pc = firings_loop ops K this packet 0 pc"

text \<open>
  \<open>unpack\<close>: the local \<open>raw_packet_t packet\<close> is not initialised, so what its storage
  holds before the call is an argument, \<open>stack\<close>. The return code of \<open>parseRawData\<close>
  is dropped, as in the source.
\<close>

definition unpack ::
  "'f fp_ops \<Rightarrow> layout \<Rightarrow> 'f RawData \<Rightarrow> raw_packet_t \<Rightarrow> 8 word list \<Rightarrow> 'f PPointCloud
     \<Rightarrow> fault + 'f PPointCloud" where
  "unpack ops K this stack pkt_data pc =
     (let (rc, packet) = parseRawData K stack pkt_data
      in toPointClouds ops K this packet pc)"

subsection \<open>The wire format in the spec's words\<close>

text \<open>
  The little-endian value of a sequence of bytes, and the field of \<open>n\<close> bytes at an
  offset of the buffer. These follow the spec's description of the wire format, to be
  compared with what \<open>parseRawData\<close> computes.
\<close>

fun le_value :: "8 word list \<Rightarrow> nat" where
  "le_value [] = 0"
| "le_value (b # bs) = unat b + 256 * le_value bs"

definition wire_field :: "8 word list \<Rightarrow> nat \<Rightarrow> nat \<Rightarrow> nat" where
  "wire_field buf offset n = le_value (take n (drop offset buf))"

text \<open>
  The spec's rule for an invalid return: the sentinel pair and any range above 100000
  units decode to zeroed fields.
\<close>

definition invalid_return :: "nat \<Rightarrow> nat \<Rightarrow> bool" where
  "invalid_return r f = ((r = 0x010101 \<and> f = 0x0101) \<or> r > 100000)"

definition spec_measure :: "nat \<Rightarrow> nat \<Rightarrow> raw_measure_t" where
  "spec_measure r f =
     (if invalid_return r f then \<lparr>range' = 0, reflectivity = 0\<rparr>
      else \<lparr>range' = of_nat r, reflectivity = of_nat f\<rparr>)"

text \<open>The offset of block \<open>i\<close> and of its measurement \<open>j\<close> in the buffer.\<close>

definition block_offset :: "layout \<Rightarrow> nat \<Rightarrow> nat" where
  "block_offset K i = i * BLOCK_SIZE K"

definition measure_offset :: "layout \<Rightarrow> nat \<Rightarrow> nat \<Rightarrow> nat" where
  "measure_offset K i j = block_offset K i + SOB_ANGLE_SIZE K + j * RAW_MEASURE_SIZE K"

definition tail_offset :: "layout \<Rightarrow> nat" where
  "tail_offset K = BLOCKS_PER_PACKET K * BLOCK_SIZE K + RESERVE_SIZE K"

text \<open>One pass of the body of the outer loop of \<open>parseRawData\<close>, on the block it is given.\<close>

definition block_at :: "layout \<Rightarrow> 8 word list \<Rightarrow> nat \<Rightarrow> raw_block_t \<Rightarrow> raw_block_t" where
  "block_at K buf index block =
     snd (measures_loop K buf 0 (index + SOB_ANGLE_SIZE K)
       (block\<lparr>sob := ucast (byte_at buf index OR push_bit 8 (byte_at buf (index + 1))),
              azimuth := ucast (byte_at buf (index + 2)
                              OR push_bit 8 (byte_at buf (index + 3)))\<rparr>))"

subsection \<open>The converter's output in the spec's words\<close>

text \<open>
  The point the corrector gives for channel \<open>j\<close> of block \<open>i\<close>, what that pair of
  block and channel adds to the cloud, and a cloud with points appended.
\<close>

definition corrected_point ::
  "'f fp_ops \<Rightarrow> layout \<Rightarrow> 'f RawData \<Rightarrow> raw_packet_t \<Rightarrow> nat \<Rightarrow> nat \<Rightarrow> fault + 'f PPoint" where
  "corrected_point ops K this packet i j =
     computeXYZIR ops K this (fresh_point ops) (uint (azimuth (blocks packet i)))
       (measures' (blocks packet i) j) (laser_corrections (calibration this) j)"

definition has_nan :: "'f fp_ops \<Rightarrow> 'f PPoint \<Rightarrow> bool" where
  "has_nan ops p =
     (f_isnan ops (point_x p) \<or> f_isnan ops (point_y p) \<or> f_isnan ops (point_z p))"

definition emitted ::
  "'f fp_ops \<Rightarrow> layout \<Rightarrow> 'f RawData \<Rightarrow> raw_packet_t \<Rightarrow> nat \<times> nat \<Rightarrow> 'f PPoint list" where
  "emitted ops K this packet ij =
     (case corrected_point ops K this packet (fst ij) (snd ij) of
        Inl e \<Rightarrow> []
      | Inr p \<Rightarrow> if has_nan ops p then [] else [p\<lparr>ring := snd ij\<rparr>])"

definition faults ::
  "'f fp_ops \<Rightarrow> layout \<Rightarrow> 'f RawData \<Rightarrow> raw_packet_t \<Rightarrow> nat \<times> nat \<Rightarrow> bool" where
  "faults ops K this packet ij =
     (corrected_point ops K this packet (fst ij) (snd ij) = Inl TableIndexOutOfRange)"

definition push_all :: "'f PPointCloud \<Rightarrow> 'f PPoint list \<Rightarrow> 'f PPointCloud" where
  "push_all pc ps = pc\<lparr>points := points pc @ ps, width := width pc + of_nat (length ps)\<rparr>"

subsection \<open>An arithmetic without rounding, for concrete runs\<close>

text \<open>
  The theorems below hold for every arithmetic. To run the functions on concrete inputs,
  this one takes a finite value to be a real number and computes exactly; the runs that
  refute a claim or show a defect have small integers and fractions as inputs, on which
  IEEE arithmetic gives the same results. A division by zero gives the NaN here; no concrete run divides by zero.
\<close>

datatype ideal = NaN | Fin real

fun ideal2 :: "(real \<Rightarrow> real \<Rightarrow> real) \<Rightarrow> ideal \<Rightarrow> ideal \<Rightarrow> ideal" where
  "ideal2 f (Fin a) (Fin b) = Fin (f a b)"
| "ideal2 f _ _ = NaN"

fun ideal1 :: "(real \<Rightarrow> real) \<Rightarrow> ideal \<Rightarrow> ideal" where
  "ideal1 f (Fin a) = Fin (f a)"
| "ideal1 f NaN = NaN"

fun ideal_div :: "ideal \<Rightarrow> ideal \<Rightarrow> ideal" where
  "ideal_div (Fin a) (Fin b) = (if b = 0 then NaN else Fin (a / b))"
| "ideal_div _ _ = NaN"

definition trunc :: "real \<Rightarrow> int" where
  "trunc r = (if 0 \<le> r then \<lfloor>r\<rfloor> else \<lceil>r\<rceil>)"

fun ideal_fmod :: "ideal \<Rightarrow> ideal \<Rightarrow> ideal" where
  "ideal_fmod (Fin a) (Fin b) =
     (if b = 0 then NaN else Fin (a - b * of_int (trunc (a / b))))"
| "ideal_fmod _ _ = NaN"

fun ideal_lt :: "ideal \<Rightarrow> ideal \<Rightarrow> bool" where
  "ideal_lt (Fin a) (Fin b) = (a < b)"
| "ideal_lt _ _ = False"

fun ideal_eq :: "ideal \<Rightarrow> ideal \<Rightarrow> bool" where
  "ideal_eq (Fin a) (Fin b) = (a = b)"
| "ideal_eq _ _ = False"

fun ideal_to_int :: "ideal \<Rightarrow> int" where
  "ideal_to_int (Fin a) = trunc a"
| "ideal_to_int NaN = 0"

fun ideal_isnan :: "ideal \<Rightarrow> bool" where
  "ideal_isnan NaN = True"
| "ideal_isnan (Fin a) = False"

definition ideal_ops :: "ideal fp_ops" where
  "ideal_ops =
     \<lparr>f_of_int = (\<lambda>i. Fin (of_int i)), f_lit = (\<lambda>q. Fin (of_rat q)), M_PI = Fin pi,
      f_add = ideal2 (+), f_sub = ideal2 (-), f_mul = ideal2 (*), f_div = ideal_div,
      f_fmod = ideal_fmod, f_lt = ideal_lt, f_eq = ideal_eq,
      f_cos = ideal1 cos, f_sin = ideal1 sin, f_cosf = ideal1 cos, f_sinf = ideal1 sin,
      from_degrees = ideal1 (\<lambda>d. d * pi / 180), to_float = (\<lambda>v. v),
      f_to_int = ideal_to_int, quiet_NaN = NaN, f_isnan = ideal_isnan\<rparr>"


subsection \<open>Concrete inputs\<close>

text \<open>
  A calibration entry without corrections for a horizontal laser, and one whose only
  correction is a vertical offset of one metre.
\<close>

definition zero_correction :: "ideal PandarLaserCorrection" where
  "zero_correction =
     \<lparr>azimuthCorrection = Fin 0, distanceCorrection = Fin 0,
      cosVertCorrection = Fin 1, sinVertCorrection = Fin 0,
      horizontalOffsetCorrection = Fin 0, verticalOffsetCorrection = Fin 0\<rparr>"

definition raised_correction :: "ideal PandarLaserCorrection" where
  "raised_correction = zero_correction\<lparr>verticalOffsetCorrection := Fin 1\<rparr>"

text \<open>
  The accessor after setup: a range window, one calibration entry for every laser, and
  the tables of cosine and sine of every azimuth unit.
\<close>

definition ideal_state ::
  "ideal \<Rightarrow> ideal \<Rightarrow> ideal PandarLaserCorrection \<Rightarrow> ideal RawData" where
  "ideal_state lo hi corr =
     \<lparr>config = \<lparr>calibrationFile = [], min_range = lo, max_range = hi,
                 tmp_min_angle = Fin 0, tmp_max_angle = Fin 0,
                 min_angle = 0, max_angle = 36000\<rparr>,
      calibration = \<lparr>laser_corrections = (\<lambda>j. corr), initialized = True\<rparr>,
      cos_lookup_table = (\<lambda>a. Fin (cos (real a * 0.01 * pi / 180))),
      sin_lookup_table = (\<lambda>a. Fin (sin (real a * 0.01 * pi / 180)))\<rparr>"


definition zero_measure :: raw_measure_t where
  "zero_measure = \<lparr>range' = 0, reflectivity = 0\<rparr>"

definition zero_packet :: raw_packet_t where
  "zero_packet =
     \<lparr>blocks = (\<lambda>i. \<lparr>sob = 0, azimuth = 0, measures' = (\<lambda>j. zero_measure)\<rparr>),
      revolution = 0, timestamp = 0, factory = (\<lambda>k. 0)\<rparr>"

definition empty_cloud :: "ideal PPointCloud" where
  "empty_cloud = \<lparr>points = [], width = 0\<rparr>"

text \<open>
  A packet of the example layout: azimuth 0, laser 0 with range 25000 (50 m) and
  reflectivity \<open>0x1234\<close>, laser 1 with the sentinel pair, eight reserved bytes,
  revolution 7, timestamp \<open>0x01020304\<close> and the factory bytes.
\<close>

definition example_buf :: "8 word list" where
  "example_buf =
     [0xEE, 0xFF, 0, 0,  0xA8, 0x61, 0, 0x34, 0x12,  1, 1, 1, 1, 1,
      0, 0, 0, 0, 0, 0, 0, 0,  7, 0,  4, 3, 2, 1,  0x42, 0x37]"

text \<open>
  Storage that holds, where the packet of \<open>unpack\<close> is allocated, one measurement of
  50 m in channel 0 of block 0 and zeroes elsewhere.
\<close>

definition stale_packet :: raw_packet_t where
  "stale_packet =
     zero_packet\<lparr>blocks := (blocks zero_packet)
       (0 := (blocks zero_packet 0)\<lparr>measures' := (measures' (blocks zero_packet 0))
          (0 := \<lparr>range' = 25000, reflectivity = 0x1234\<rparr>)\<rparr>)\<rparr>"

text \<open>
  A buffer of 1240 bytes with azimuth \<open>0xFFFF\<close> in block 0, whose channel 0 has range
  1000 (2 m); and the buffer of that size whose bytes are all 1, every measurement of
  which is the sentinel pair.
\<close>

definition wide_azimuth_buf :: "8 word list" where
  "wide_azimuth_buf = [0xEE, 0xFF, 0xFF, 0xFF, 0xE8, 0x03, 0, 0, 0] @ replicate 1231 0"

definition sentinel_buf :: "8 word list" where
  "sentinel_buf = replicate 1240 1"

section \<open>The parser\<close>

subsection \<open>The loops\<close>

declare measures_loop.simps [simp del] blocks_loop.simps [simp del]

lemma measures_loop_unfold:
  "j < LASER_COUNT K \<Longrightarrow>
   measures_loop K buf j index block =
     measures_loop K buf (j + 1) (index + RAW_MEASURE_SIZE K)
       (block\<lparr>measures' := (measures' block)(j := read_measure buf index)\<rparr>)"
  by (subst measures_loop.simps) simp

lemma measures_loop_exit:
  "\<not> j < LASER_COUNT K \<Longrightarrow> measures_loop K buf j index block = (index, block)"
  by (subst measures_loop.simps) simp

lemma measures_loop_index:
  "fst (measures_loop K buf j index block) = index + (LASER_COUNT K - j) * RAW_MEASURE_SIZE K"
proof (induction "LASER_COUNT K - j" arbitrary: j index block)
  case 0
  then have "\<not> j < LASER_COUNT K" by simp
  then show ?case by (simp add: measures_loop_exit)
next
  case (Suc n)
  then have lt: "j < LASER_COUNT K" and n: "n = LASER_COUNT K - Suc j" by simp_all
  from Suc(2) have "LASER_COUNT K - j = Suc (LASER_COUNT K - Suc j)" by simp
  then show ?case
    by (simp add: measures_loop_unfold [OF lt] Suc(1) [OF n])
qed

lemma measures_loop_measures:
  "measures' (snd (measures_loop K buf j index block)) k =
     (if j \<le> k \<and> k < LASER_COUNT K
      then read_measure buf (index + (k - j) * RAW_MEASURE_SIZE K)
      else measures' block k)"
proof (induction "LASER_COUNT K - j" arbitrary: j index block)
  case 0
  then have "\<not> j < LASER_COUNT K" by simp
  then show ?case by (auto simp add: measures_loop_exit)
next
  case (Suc n)
  then have lt: "j < LASER_COUNT K" and n: "n = LASER_COUNT K - Suc j" by simp_all
  have step: "Suc j \<le> k \<Longrightarrow>
      index + RAW_MEASURE_SIZE K + (k - Suc j) * RAW_MEASURE_SIZE K
        = index + (k - j) * RAW_MEASURE_SIZE K"
  proof -
    assume "Suc j \<le> k"
    then have "k - j = Suc (k - Suc j)" by simp
    then show ?thesis by simp
  qed
  show ?case
    using lt by (auto simp add: measures_loop_unfold [OF lt] Suc(1) [OF n] step)
qed

lemma measures_loop_sob_azimuth:
  "sob (snd (measures_loop K buf j index block)) = sob block
   \<and> azimuth (snd (measures_loop K buf j index block)) = azimuth block"
proof (induction "LASER_COUNT K - j" arbitrary: j index block)
  case 0
  then have "\<not> j < LASER_COUNT K" by simp
  then show ?case by (simp add: measures_loop_exit)
next
  case (Suc n)
  then have lt: "j < LASER_COUNT K" and n: "n = LASER_COUNT K - Suc j" by simp_all
  show ?case
    by (simp add: measures_loop_unfold [OF lt] Suc(1) [OF n])
qed

lemma blocks_loop_unfold:
  "i < BLOCKS_PER_PACKET K \<Longrightarrow>
   blocks_loop K buf i index packet =
     blocks_loop K buf (i + 1) (index + BLOCK_SIZE K)
       (packet\<lparr>blocks := (blocks packet)(i := block_at K buf index (blocks packet i))\<rparr>)"
  by (subst blocks_loop.simps)
     (simp add: Let_def split_beta block_at_def measures_loop_index BLOCK_SIZE_def add.assoc)

lemma blocks_loop_exit:
  "\<not> i < BLOCKS_PER_PACKET K \<Longrightarrow> blocks_loop K buf i index packet = (index, packet)"
  by (subst blocks_loop.simps) simp

lemma blocks_loop_index:
  "fst (blocks_loop K buf i index packet) = index + (BLOCKS_PER_PACKET K - i) * BLOCK_SIZE K"
proof (induction "BLOCKS_PER_PACKET K - i" arbitrary: i index packet)
  case 0
  then have "\<not> i < BLOCKS_PER_PACKET K" by simp
  then show ?case by (auto simp add: blocks_loop_exit)
next
  case (Suc n)
  then have lt: "i < BLOCKS_PER_PACKET K" and n: "n = BLOCKS_PER_PACKET K - Suc i" by simp_all
  from Suc(2) have "BLOCKS_PER_PACKET K - i = Suc (BLOCKS_PER_PACKET K - Suc i)" by simp
  then show ?case
    by (simp add: blocks_loop_unfold [OF lt] Suc(1) [OF n])
qed

lemma blocks_loop_blocks:
  "blocks (snd (blocks_loop K buf i index packet)) k =
     (if i \<le> k \<and> k < BLOCKS_PER_PACKET K
      then block_at K buf (index + (k - i) * BLOCK_SIZE K) (blocks packet k)
      else blocks packet k)"
proof (induction "BLOCKS_PER_PACKET K - i" arbitrary: i index packet)
  case 0
  then have "\<not> i < BLOCKS_PER_PACKET K" by simp
  then show ?case by (auto simp add: blocks_loop_exit)
next
  case (Suc n)
  then have lt: "i < BLOCKS_PER_PACKET K" and n: "n = BLOCKS_PER_PACKET K - Suc i" by simp_all
  have step: "Suc i \<le> k \<Longrightarrow> index + BLOCK_SIZE K + (k - Suc i) * BLOCK_SIZE K
        = index + (k - i) * BLOCK_SIZE K"
  proof -
    assume "Suc i \<le> k"
    then have "k - i = Suc (k - Suc i)" by simp
    then show ?thesis by simp
  qed
  show ?case
    using lt by (auto simp add: blocks_loop_unfold [OF lt] Suc(1) [OF n] step)
qed

lemma blocks_loop_rest:
  "revolution (snd (blocks_loop K buf i index packet)) = revolution packet
   \<and> timestamp (snd (blocks_loop K buf i index packet)) = timestamp packet
   \<and> factory (snd (blocks_loop K buf i index packet)) = factory packet"
proof (induction "BLOCKS_PER_PACKET K - i" arbitrary: i index packet)
  case 0
  then have "\<not> i < BLOCKS_PER_PACKET K" by simp
  then show ?case by (auto simp add: blocks_loop_exit)
next
  case (Suc n)
  then have lt: "i < BLOCKS_PER_PACKET K" and n: "n = BLOCKS_PER_PACKET K - Suc i" by simp_all
  show ?case
    by (simp add: blocks_loop_unfold [OF lt] Suc(1) [OF n])
qed

subsection \<open>Little-endian fields\<close>

lemma nat_or_push_bit:
  fixes a b :: nat
  assumes "a < 2 ^ k"
  shows "a OR push_bit k b = a + 2 ^ k * b"
proof -
  from assms have a: "take_bit k a = a" by (simp add: take_bit_nat_eq_self)
  have "a + push_bit k b = a OR push_bit k b"
  proof (rule disjunctive_add)
    fix n
    have "bit a n \<Longrightarrow> n < k"
      using a by (metis bit_take_bit_iff)
    then show "\<not> bit a n \<or> \<not> bit (push_bit k b) n"
      by (auto simp add: bit_push_bit_iff)
  qed
  then show ?thesis by (simp add: push_bit_eq_mult mult.commute)
qed

lemma unat_lt_256: "unat (b :: 8 word) < 256"
  using unsigned_less [of b, where 'a = nat] by simp

lemma unat_byte_at: "unat (byte_at buf i) = unat (buf ! i)"
proof -
  have m: "(0xff :: nat) = mask 8" by (simp add: mask_eq_exp_minus_1)
  have "unat (byte_at buf i) = take_bit 32 (unat (buf ! i)) AND 0xff"
    by (simp add: byte_at_def unsigned_and_eq unsigned_ucast_eq)
  also have "\<dots> = unat (buf ! i)"
    using unat_lt_256 [of "buf ! i"]
    by (simp only: m) (simp add: take_bit_nat_eq_self take_bit_eq_mask [symmetric])
  finally show ?thesis .
qed

lemma byte_at_lt: "unat (byte_at buf i) < 256"
  by (simp add: unat_byte_at unat_lt_256)

lemma unat_or_push_bit:
  fixes w v :: "32 word"
  assumes "unat w < 2 ^ k" and "2 ^ k * unat v < 2 ^ 32"
  shows "unat (w OR push_bit k v) = unat w + 2 ^ k * unat v"
proof -
  from assms(2) have "push_bit k (unat v) < 2 ^ 32"
    by (simp add: push_bit_eq_mult mult.commute)
  then have "unat (w OR push_bit k v) = unat w OR push_bit k (unat v)"
    by (simp add: unsigned_or_eq unsigned_push_bit_eq take_bit_nat_eq_self)
  with assms(1) show ?thesis
    by (simp add: nat_or_push_bit)
qed

lemma le16_32:
  "unat (byte_at buf i OR push_bit 8 (byte_at buf j))
     = unat (buf ! i) + 256 * unat (buf ! j)"
  using unat_or_push_bit [of "byte_at buf i" 8 "byte_at buf j"]
    unat_lt_256 [of "buf ! i"] unat_lt_256 [of "buf ! j"]
  by (simp add: unat_byte_at)

lemma le24_32:
  "unat (byte_at buf i OR push_bit 8 (byte_at buf j) OR push_bit 16 (byte_at buf k))
     = unat (buf ! i) + 256 * unat (buf ! j) + 65536 * unat (buf ! k)"
  using unat_or_push_bit [of "byte_at buf i OR push_bit 8 (byte_at buf j)" 16 "byte_at buf k"]
    unat_lt_256 [of "buf ! i"] unat_lt_256 [of "buf ! j"] unat_lt_256 [of "buf ! k"]
  by (simp add: unat_byte_at le16_32 or.assoc)

lemma le32_32:
  "unat (byte_at buf i OR push_bit 8 (byte_at buf j) OR push_bit 16 (byte_at buf k)
           OR push_bit 24 (byte_at buf l))
     = unat (buf ! i) + 256 * unat (buf ! j) + 65536 * unat (buf ! k)
         + 16777216 * unat (buf ! l)"
  using unat_or_push_bit [of "byte_at buf i OR push_bit 8 (byte_at buf j)
      OR push_bit 16 (byte_at buf k)" 24 "byte_at buf l"]
    unat_lt_256 [of "buf ! i"] unat_lt_256 [of "buf ! j"] unat_lt_256 [of "buf ! k"]
    unat_lt_256 [of "buf ! l"]
  by (simp add: unat_byte_at le24_32 or.assoc)

lemma le16_16:
  "unat (ucast (byte_at buf i OR push_bit 8 (byte_at buf j)) :: 16 word)
     = unat (buf ! i) + 256 * unat (buf ! j)"
proof -
  have "unat (buf ! i) + 256 * unat (buf ! j) < 2 ^ 16"
    using unat_lt_256 [of "buf ! i"] unat_lt_256 [of "buf ! j"] by simp
  then show ?thesis
    by (simp add: unsigned_ucast_eq le16_32 take_bit_nat_eq_self)
qed

lemma wire_field_0: "wire_field buf offset 0 = 0"
  by (simp add: wire_field_def)

lemma wire_field_Suc:
  "offset < length buf \<Longrightarrow>
   wire_field buf offset (Suc n) = unat (buf ! offset) + 256 * wire_field buf (Suc offset) n"
  by (simp add: wire_field_def take_Suc hd_drop_conv_nth drop_Suc [symmetric] tl_drop)

lemma wire_field_1:
  "offset + 1 \<le> length buf \<Longrightarrow> wire_field buf offset 1 = unat (buf ! offset)"
  using wire_field_Suc [of offset buf 0] by (simp add: wire_field_0)

lemma wire_field_2:
  "offset + 2 \<le> length buf \<Longrightarrow>
   wire_field buf offset 2 = unat (buf ! offset) + 256 * unat (buf ! (offset + 1))"
  using wire_field_Suc [of offset buf 1] wire_field_1 [of "Suc offset" buf]
  by (simp add: numeral_2_eq_2)

lemma wire_field_3:
  "offset + 3 \<le> length buf \<Longrightarrow>
   wire_field buf offset 3 = unat (buf ! offset) + 256 * unat (buf ! (offset + 1))
      + 65536 * unat (buf ! (offset + 2))"
  using wire_field_Suc [of offset buf 2] wire_field_2 [of "Suc offset" buf]
  by (simp add: numeral_3_eq_3 numeral_2_eq_2)

lemma wire_field_4:
  assumes "offset + 4 \<le> length buf"
  shows "wire_field buf offset 4 = unat (buf ! offset) + 256 * unat (buf ! (offset + 1))
      + 65536 * unat (buf ! (offset + 2)) + 16777216 * unat (buf ! (offset + 3))"
proof -
  from assms have "offset < length buf" by simp
  then have "wire_field buf offset (Suc 3)
      = unat (buf ! offset) + 256 * wire_field buf (Suc offset) 3"
    by (rule wire_field_Suc)
  moreover have "Suc 3 = (4::nat)" by simp
  moreover from assms have "wire_field buf (Suc offset) 3
      = unat (buf ! (offset + 1)) + 256 * unat (buf ! (offset + 2))
          + 65536 * unat (buf ! (offset + 3))"
    using wire_field_3 [of "Suc offset" buf] by (simp add: numeral_3_eq_3)
  ultimately show ?thesis by simp
qed

lemma of_nat_unat_word: "unat (w :: 'a::len word) = r \<Longrightarrow> w = of_nat r"
  by auto

lemma read_measure_spec:
  assumes "index + 5 \<le> length buf"
  shows "read_measure buf index
           = spec_measure (wire_field buf index 3) (wire_field buf (index + 3) 2)"
proof -
  let ?w = "byte_at buf index OR push_bit 8 (byte_at buf (index + 1))
              OR push_bit 16 (byte_at buf (index + 2))"
  let ?v = "ucast (byte_at buf (index + 3) OR push_bit 8 (byte_at buf (index + 4))) :: 16 word"
  let ?r = "wire_field buf index 3"
  let ?f = "wire_field buf (index + 3) 2"
  have e: "index + 3 + 1 = index + 4" by simp
  from assms have r: "unat ?w = ?r"
    by (simp add: le24_32 wire_field_3)
  from assms have f: "unat ?v = ?f"
    by (simp add: le16_16 wire_field_2 e del: One_nat_def)
  have w: "?w = of_nat ?r"
    using r by (rule of_nat_unat_word)
  have v: "?v = of_nat ?f"
    using f by (rule of_nat_unat_word)
  have c1: "?w = 0x010101 \<longleftrightarrow> ?r = 0x010101"
    by (simp only: word_unat_eq_iff [of ?w] r) simp
  have c2: "?v = 0x0101 \<longleftrightarrow> ?f = 0x0101"
    by (simp only: word_unat_eq_iff [of ?v] f) simp
  have c3: "100000 < ?w \<longleftrightarrow> 100000 < ?r"
    by (simp only: word_less_nat_alt r) simp
  have "read_measure buf index =
      (if (?w = 0x010101 \<and> ?v = 0x0101) \<or> 100000 < ?w
       then \<lparr>range' = 0, reflectivity = 0\<rparr> else \<lparr>range' = ?w, reflectivity = ?v\<rparr>)"
    by (simp add: read_measure_def Let_def)
  also have "\<dots> = spec_measure ?r ?f"
    unfolding c1 c2 c3 spec_measure_def invalid_return_def
    using w v by simp
  finally show ?thesis .
qed



subsection \<open>What the parser stores\<close>

lemma block_at_fields:
  "sob (block_at K buf index block)
     = ucast (byte_at buf index OR push_bit 8 (byte_at buf (index + 1)))"
  "azimuth (block_at K buf index block)
     = ucast (byte_at buf (index + 2) OR push_bit 8 (byte_at buf (index + 3)))"
  "j < LASER_COUNT K \<Longrightarrow>
   measures' (block_at K buf index block) j
     = read_measure buf (index + SOB_ANGLE_SIZE K + j * RAW_MEASURE_SIZE K)"
  by (simp_all add: block_at_def measures_loop_sob_azimuth measures_loop_measures)

lemma parse_size_mismatch:
  "length buf \<noteq> PACKET_SIZE K \<Longrightarrow> parseRawData K packet buf = (- 1, packet)"
  by (simp add: parseRawData_def)

lemma parse_return_code:
  "length buf = PACKET_SIZE K \<Longrightarrow> fst (parseRawData K packet buf) = 0"
  by (simp add: parseRawData_def Let_def split_beta)

lemma parse_blocks:
  "length buf = PACKET_SIZE K \<Longrightarrow> i < BLOCKS_PER_PACKET K \<Longrightarrow>
   blocks (snd (parseRawData K packet buf)) i
     = block_at K buf (block_offset K i) (blocks packet i)"
  by (simp add: parseRawData_def Let_def split_beta blocks_loop_blocks block_offset_def)

lemma parse_measure:
  "length buf = PACKET_SIZE K \<Longrightarrow> i < BLOCKS_PER_PACKET K \<Longrightarrow> j < LASER_COUNT K \<Longrightarrow>
   measures' (blocks (snd (parseRawData K packet buf)) i) j
     = read_measure buf (measure_offset K i j)"
  by (simp add: parse_blocks block_at_fields measure_offset_def)

lemma parse_tail:
  assumes "length buf = PACKET_SIZE K"
  shows "revolution (snd (parseRawData K packet buf))
     = ucast (byte_at buf (tail_offset K) OR push_bit 8 (byte_at buf (tail_offset K + 1)))"
  and "timestamp (snd (parseRawData K packet buf))
     = byte_at buf (tail_offset K + REVOLUTION_SIZE K)
         OR push_bit 8 (byte_at buf (tail_offset K + REVOLUTION_SIZE K + 1))
         OR push_bit 16 (byte_at buf (tail_offset K + REVOLUTION_SIZE K + 2))
         OR push_bit 24 (byte_at buf (tail_offset K + REVOLUTION_SIZE K + 3))"
  and "factory (snd (parseRawData K packet buf)) 0
     = ucast (byte_at buf (tail_offset K + REVOLUTION_SIZE K + TIMESTAMP_SIZE K))"
  and "factory (snd (parseRawData K packet buf)) 1
     = ucast (byte_at buf (tail_offset K + REVOLUTION_SIZE K + TIMESTAMP_SIZE K + 1))"
  using assms
  by (simp_all add: parseRawData_def Let_def split_beta blocks_loop_index tail_offset_def)

lemma measure_in_buffer:
  assumes "spec_widths K" and "i < BLOCKS_PER_PACKET K" and "j < LASER_COUNT K"
  shows "measure_offset K i j + 5 \<le> PACKET_SIZE K"
proof -
  from assms(3) have "Suc j * 5 \<le> LASER_COUNT K * 5" by simp
  then have "4 + j * 5 + 5 \<le> BLOCK_SIZE K"
    using assms(1) by (simp add: BLOCK_SIZE_def spec_widths_def)
  then have "i * BLOCK_SIZE K + (4 + j * 5 + 5) \<le> Suc i * BLOCK_SIZE K" by simp
  also from assms(2) have "Suc i * BLOCK_SIZE K \<le> BLOCKS_PER_PACKET K * BLOCK_SIZE K"
    by (intro mult_le_mono1) simp
  finally show ?thesis
    using assms(1) by (simp add: measure_offset_def block_offset_def PACKET_SIZE_def spec_widths_def)
qed

lemma block_in_buffer:
  assumes "spec_widths K" and "i < BLOCKS_PER_PACKET K"
  shows "block_offset K i + 4 \<le> PACKET_SIZE K"
proof -
  have "4 \<le> BLOCK_SIZE K"
    using assms(1) by (simp add: BLOCK_SIZE_def spec_widths_def)
  then have "i * BLOCK_SIZE K + 4 \<le> Suc i * BLOCK_SIZE K" by simp
  also from assms(2) have "Suc i * BLOCK_SIZE K \<le> BLOCKS_PER_PACKET K * BLOCK_SIZE K"
    by (intro mult_le_mono1) simp
  finally show ?thesis
    by (simp add: block_offset_def PACKET_SIZE_def)
qed

lemma tail_in_buffer:
  "spec_widths K \<Longrightarrow> tail_offset K + 8 = PACKET_SIZE K"
  by (simp add: tail_offset_def PACKET_SIZE_def spec_widths_def)

lemma parse_measure_spec:
  assumes "length buf = PACKET_SIZE K" and "spec_widths K"
    and "i < BLOCKS_PER_PACKET K" and "j < LASER_COUNT K"
  shows "measures' (blocks (snd (parseRawData K packet buf)) i) j
     = spec_measure (wire_field buf (measure_offset K i j) 3)
         (wire_field buf (measure_offset K i j + 3) 2)"
  using assms measure_in_buffer [OF assms(2-4)]
  by (simp add: parse_measure read_measure_spec)

lemma parse_sob_azimuth_spec:
  assumes "length buf = PACKET_SIZE K" and "spec_widths K" and "i < BLOCKS_PER_PACKET K"
  shows "unat (sob (blocks (snd (parseRawData K packet buf)) i))
           = wire_field buf (block_offset K i) 2"
    and "unat (azimuth (blocks (snd (parseRawData K packet buf)) i))
           = wire_field buf (block_offset K i + 2) 2"
proof -
  from block_in_buffer [OF assms(2,3)] assms(1)
  have b: "block_offset K i + 4 \<le> length buf" by simp
  then show "unat (sob (blocks (snd (parseRawData K packet buf)) i))
           = wire_field buf (block_offset K i) 2"
    using assms by (simp add: parse_blocks block_at_fields le16_16 wire_field_2)
  from b show "unat (azimuth (blocks (snd (parseRawData K packet buf)) i))
           = wire_field buf (block_offset K i + 2) 2"
    using assms wire_field_2 [of "block_offset K i + 2" buf]
    by (simp add: parse_blocks block_at_fields le16_16 add.assoc)
       (simp add: eval_nat_numeral)
qed

lemma parse_tail_spec:
  assumes "length buf = PACKET_SIZE K" and "spec_widths K"
  shows "unat (revolution (snd (parseRawData K packet buf))) = wire_field buf (tail_offset K) 2"
    and "unat (timestamp (snd (parseRawData K packet buf)))
           = wire_field buf (tail_offset K + 2) 4"
    and "unat (factory (snd (parseRawData K packet buf)) 0)
           = wire_field buf (tail_offset K + 6) 1"
    and "unat (factory (snd (parseRawData K packet buf)) 1)
           = wire_field buf (tail_offset K + 7) 1"
proof -
  from tail_in_buffer [OF assms(2)] assms(1)
  have b: "tail_offset K + 8 = length buf" by simp
  have w: "REVOLUTION_SIZE K = 2" "TIMESTAMP_SIZE K = 4"
    using assms(2) by (simp_all add: spec_widths_def)
  have u: "unat (ucast (byte_at buf n) :: 8 word) = unat (buf ! n)" for n
    using unat_lt_256 [of "buf ! n"]
    by (simp add: unsigned_ucast_eq unat_byte_at take_bit_nat_eq_self)
  have f1: "factory (snd (parseRawData K packet buf)) 1
      = ucast (byte_at buf (tail_offset K + 7))"
    using parse_tail(4) [OF assms(1), of packet] by (simp only: w) (simp add: ac_simps)
  from b show "unat (revolution (snd (parseRawData K packet buf)))
      = wire_field buf (tail_offset K) 2"
    by (simp add: parse_tail [OF assms(1)] le16_16 wire_field_2)
  from b show "unat (timestamp (snd (parseRawData K packet buf)))
      = wire_field buf (tail_offset K + 2) 4"
    by (simp add: parse_tail [OF assms(1)] w le32_32 wire_field_4 add.assoc)
  from b show "unat (factory (snd (parseRawData K packet buf)) 0)
      = wire_field buf (tail_offset K + 6) 1"
    using wire_field_1 [of "tail_offset K + 6" buf]
    by (simp add: parse_tail [OF assms(1)] w u add.assoc) (simp add: add.commute)
  from b show "unat (factory (snd (parseRawData K packet buf)) 1)
      = wire_field buf (tail_offset K + 7) 1"
    unfolding f1 u using wire_field_1 [of "tail_offset K + 7" buf] by simp
qed


text \<open>
  Claim C3. For a buffer of the wire size and every measurement position of the packet:
  when the 3-byte range and 2-byte reflectivity on the wire are the sentinel pair
  \<open>(0x010101, 0x0101)\<close>, or the range on the wire exceeds 100000 units, the parser
  succeeds and both fields of that measurement in the parsed packet are zero.
\<close>

theorem parse_zeroes_invalid_returns:
  assumes "length buf = PACKET_SIZE K" and "spec_widths K"
    and "i < BLOCKS_PER_PACKET K" and "j < LASER_COUNT K"
    and "(wire_field buf (measure_offset K i j) 3 = 0x010101
            \<and> wire_field buf (measure_offset K i j + 3) 2 = 0x0101)
         \<or> wire_field buf (measure_offset K i j) 3 > 100000"
  shows "fst (parseRawData K packet buf) = 0
     \<and> range' (measures' (blocks (snd (parseRawData K packet buf)) i) j) = 0
     \<and> reflectivity (measures' (blocks (snd (parseRawData K packet buf)) i) j) = 0"
  using assms(5)
  by (auto simp add: parse_return_code [OF assms(1)] parse_measure_spec [OF assms(1-4)]
        spec_measure_def invalid_return_def)

theorem parse_zeroes_invalid_returns_witness:
  "length (replicate 1240 (1 :: 8 word)) = PACKET_SIZE pandar40
   \<and> spec_widths pandar40
   \<and> 5 < BLOCKS_PER_PACKET pandar40 \<and> 39 < LASER_COUNT pandar40
   \<and> wire_field (replicate 1240 1) (measure_offset pandar40 5 39) 3 = 0x010101
   \<and> wire_field (replicate 1240 1) (measure_offset pandar40 5 39 + 3) 2 = 0x0101
   \<and> fst (parseRawData pandar40 zero_packet (replicate 1240 1)) = 0
   \<and> range' (measures' (blocks (snd (parseRawData pandar40 zero_packet (replicate 1240 1))) 5) 39) = 0
   \<and> reflectivity (measures' (blocks (snd (parseRawData pandar40 zero_packet (replicate 1240 1))) 5) 39) = 0"
proof -
  have len: "length (replicate 1240 (1 :: 8 word)) = PACKET_SIZE pandar40"
    by (simp add: PACKET_SIZE_def BLOCK_SIZE_def pandar40_def)
  have sw: "spec_widths pandar40"
    by (simp add: spec_widths_def pandar40_def)
  have i: "5 < BLOCKS_PER_PACKET pandar40" and j: "39 < LASER_COUNT pandar40"
    by (simp_all add: pandar40_def)
  have off: "measure_offset pandar40 5 39 = 1219"
    by (simp add: measure_offset_def block_offset_def BLOCK_SIZE_def pandar40_def)
  have r: "wire_field (replicate 1240 1) (measure_offset pandar40 5 39) 3 = 0x010101"
    by (simp add: off wire_field_def) (simp add: numeral_3_eq_3)
  have f: "wire_field (replicate 1240 1) (measure_offset pandar40 5 39 + 3) 2 = 0x0101"
    by (simp add: off wire_field_def) (simp add: numeral_2_eq_2)
  from r f have "(wire_field (replicate 1240 1) (measure_offset pandar40 5 39) 3 = 0x010101
            \<and> wire_field (replicate 1240 1) (measure_offset pandar40 5 39 + 3) 2 = 0x0101)
         \<or> wire_field (replicate 1240 1) (measure_offset pandar40 5 39) 3 > 100000"
    by simp
  from parse_zeroes_invalid_returns [OF len sw i j this, of zero_packet] len sw i j r f
  show ?thesis by simp
qed


text \<open>
  Claim C6. For a buffer of the wire size, with the field widths of the spec: the parser
  succeeds; block \<open>i\<close> starts at \<open>i * (4 + LASER_COUNT * 5)\<close> with the 2-byte
  start-of-block marker, followed by the 2-byte azimuth and then, for each laser channel
  in turn, a 3-byte range and a 2-byte reflectivity (stored after the rule for invalid
  returns); after the last block the reserved region is skipped, and a 2-byte revolution
  counter, a 4-byte timestamp and the two factory bytes are read, which end the buffer.
  Every field holds the little-endian value of its bytes.
\<close>

theorem parse_wire_order:
  assumes "length buf = PACKET_SIZE K" and "spec_widths K"
  shows "fst (parseRawData K packet buf) = 0
     \<and> (\<forall>i<BLOCKS_PER_PACKET K.
           block_offset K i = i * (4 + LASER_COUNT K * 5)
         \<and> unat (sob (blocks (snd (parseRawData K packet buf)) i))
              = wire_field buf (block_offset K i) 2
         \<and> unat (azimuth (blocks (snd (parseRawData K packet buf)) i))
              = wire_field buf (block_offset K i + 2) 2
         \<and> (\<forall>j<LASER_COUNT K.
               measures' (blocks (snd (parseRawData K packet buf)) i) j
                 = spec_measure (wire_field buf (block_offset K i + 4 + j * 5) 3)
                     (wire_field buf (block_offset K i + 4 + j * 5 + 3) 2)))
     \<and> tail_offset K = BLOCKS_PER_PACKET K * (4 + LASER_COUNT K * 5) + RESERVE_SIZE K
     \<and> unat (revolution (snd (parseRawData K packet buf))) = wire_field buf (tail_offset K) 2
     \<and> unat (timestamp (snd (parseRawData K packet buf)))
          = wire_field buf (tail_offset K + 2) 4
     \<and> unat (factory (snd (parseRawData K packet buf)) 0)
          = wire_field buf (tail_offset K + 6) 1
     \<and> unat (factory (snd (parseRawData K packet buf)) 1)
          = wire_field buf (tail_offset K + 7) 1
     \<and> tail_offset K + 8 = length buf"
proof -
  have bs: "BLOCK_SIZE K = 4 + LASER_COUNT K * 5"
    using assms(2) by (simp add: BLOCK_SIZE_def spec_widths_def)
  have mo: "measure_offset K i j = block_offset K i + 4 + j * 5" for i j
    using assms(2) by (simp add: measure_offset_def spec_widths_def)
  have m: "measures' (blocks (snd (parseRawData K packet buf)) i) j
         = spec_measure (wire_field buf (block_offset K i + 4 + j * 5) 3)
             (wire_field buf (block_offset K i + 4 + j * 5 + 3) 2)"
    if "i < BLOCKS_PER_PACKET K" and "j < LASER_COUNT K" for i j
    using parse_measure_spec [OF assms that, of packet] unfolding mo .
  have bo: "block_offset K i = i * (4 + LASER_COUNT K * 5)" for i
    by (simp add: block_offset_def bs)
  have blocks: "\<forall>i<BLOCKS_PER_PACKET K.
           block_offset K i = i * (4 + LASER_COUNT K * 5)
         \<and> unat (sob (blocks (snd (parseRawData K packet buf)) i))
              = wire_field buf (block_offset K i) 2
         \<and> unat (azimuth (blocks (snd (parseRawData K packet buf)) i))
              = wire_field buf (block_offset K i + 2) 2
         \<and> (\<forall>j<LASER_COUNT K.
               measures' (blocks (snd (parseRawData K packet buf)) i) j
                 = spec_measure (wire_field buf (block_offset K i + 4 + j * 5) 3)
                     (wire_field buf (block_offset K i + 4 + j * 5 + 3) 2))"
    using parse_sob_azimuth_spec [OF assms, of _ packet] m bo by blast
  have tail: "tail_offset K = BLOCKS_PER_PACKET K * (4 + LASER_COUNT K * 5) + RESERVE_SIZE K"
    by (simp add: tail_offset_def bs)
  have size: "tail_offset K + 8 = length buf"
    using tail_in_buffer [OF assms(2)] assms(1) by simp
  from blocks tail size show ?thesis
    using parse_return_code [OF assms(1), of packet] parse_tail_spec [OF assms, of packet]
    by blast
qed

theorem parse_wire_order_witness:
  "length example_buf = PACKET_SIZE example_layout \<and> spec_widths example_layout
   \<and> fst (parseRawData example_layout zero_packet example_buf) = 0
   \<and> unat (sob (blocks (snd (parseRawData example_layout zero_packet example_buf)) 0)) = 0xFFEE
   \<and> unat (azimuth (blocks (snd (parseRawData example_layout zero_packet example_buf)) 0)) = 0
   \<and> measures' (blocks (snd (parseRawData example_layout zero_packet example_buf)) 0) 0
        = \<lparr>range' = 25000, reflectivity = 0x1234\<rparr>
   \<and> measures' (blocks (snd (parseRawData example_layout zero_packet example_buf)) 0) 1
        = \<lparr>range' = 0, reflectivity = 0\<rparr>
   \<and> unat (revolution (snd (parseRawData example_layout zero_packet example_buf))) = 7
   \<and> unat (timestamp (snd (parseRawData example_layout zero_packet example_buf))) = 0x01020304
   \<and> unat (factory (snd (parseRawData example_layout zero_packet example_buf)) 0) = 0x42
   \<and> unat (factory (snd (parseRawData example_layout zero_packet example_buf)) 1) = 0x37"
proof -
  have len: "length example_buf = PACKET_SIZE example_layout"
    by (simp add: PACKET_SIZE_def BLOCK_SIZE_def example_layout_def example_buf_def)
  have sw: "spec_widths example_layout"
    by (simp add: spec_widths_def example_layout_def)
  have K: "BLOCKS_PER_PACKET example_layout = 1" "LASER_COUNT example_layout = 2"
    "tail_offset example_layout = 22" "block_offset example_layout 0 = 0"
    by (simp_all add: example_layout_def tail_offset_def block_offset_def BLOCK_SIZE_def)
  have wf: "wire_field example_buf 0 2 = 0xFFEE" "wire_field example_buf 2 2 = 0"
    "wire_field example_buf 4 3 = 25000" "wire_field example_buf 7 2 = 0x1234"
    "wire_field example_buf 9 3 = 0x010101" "wire_field example_buf 12 2 = 0x0101"
    "wire_field example_buf 22 2 = 7" "wire_field example_buf 24 4 = 0x01020304"
    "wire_field example_buf 28 1 = 0x42" "wire_field example_buf 29 1 = 0x37"
    by (simp_all add: wire_field_def example_buf_def)
  have sm: "spec_measure 25000 0x1234 = \<lparr>range' = 25000, reflectivity = 0x1234\<rparr>"
    "spec_measure 0x010101 0x0101 = \<lparr>range' = 0, reflectivity = 0\<rparr>"
    by (simp_all add: spec_measure_def invalid_return_def)
  have two: "(\<forall>j<2. P j) = (P 0 \<and> P (Suc 0))" for P :: "nat \<Rightarrow> bool"
    by (auto simp add: less_2_cases_iff)
  have wf': "wire_field example_buf (Suc (Suc 0)) 2 = 0"
    "wire_field example_buf 28 (Suc 0) = 0x42" "wire_field example_buf 29 (Suc 0) = 0x37"
    by (simp_all add: wire_field_def example_buf_def)
  from parse_wire_order [OF len sw, of zero_packet] len sw
  show ?thesis
    by (simp add: K wf wf' sm two)
qed

section \<open>The converter and the corrector\<close>

subsection \<open>The loops of the converter\<close>

declare lasers_loop.simps [simp del] firings_loop.simps [simp del]

lemma push_all_Nil: "push_all pc [] = pc"
  by (simp add: push_all_def)

lemma push_all_append: "push_all (push_all pc ps) qs = push_all pc (ps @ qs)"
  by (simp add: push_all_def)

lemma laser_body_emitted:
  "laser_body ops K this (blocks packet i) j pc =
     (if faults ops K this packet (i, j) then Inl TableIndexOutOfRange
      else Inr (push_all pc (emitted ops K this packet (i, j))))"
proof (cases "corrected_point ops K this packet i j")
  case (Inl e)
  then show ?thesis
    by (cases e) (simp add: laser_body_def faults_def corrected_point_def)
next
  case (Inr p)
  then show ?thesis
    by (simp add: laser_body_def faults_def emitted_def corrected_point_def has_nan_def
          push_all_def)
qed

lemma lasers_loop_unfold:
  "j < LASER_COUNT K \<Longrightarrow>
   lasers_loop ops K this firing_data j pc =
     (case laser_body ops K this firing_data j pc of
        Inl e \<Rightarrow> Inl e
      | Inr pc' \<Rightarrow> lasers_loop ops K this firing_data (j + 1) pc')"
  by (subst lasers_loop.simps) simp

lemma lasers_loop_exit:
  "\<not> j < LASER_COUNT K \<Longrightarrow> lasers_loop ops K this firing_data j pc = Inr pc"
  by (subst lasers_loop.simps) simp

lemma lasers_loop_emitted:
  "lasers_loop ops K this (blocks packet i) j pc =
     (if \<exists>k \<in> set [j..<LASER_COUNT K]. faults ops K this packet (i, k)
      then Inl TableIndexOutOfRange
      else Inr (push_all pc
             (concat (map (\<lambda>k. emitted ops K this packet (i, k)) [j..<LASER_COUNT K]))))"
proof (induction "LASER_COUNT K - j" arbitrary: j pc)
  case 0
  then have "\<not> j < LASER_COUNT K" by simp
  then show ?case by (simp add: lasers_loop_exit push_all_Nil)
next
  case (Suc n)
  then have lt: "j < LASER_COUNT K" and n: "n = LASER_COUNT K - Suc j" by simp_all
  from lt have upt: "[j..<LASER_COUNT K] = j # [Suc j..<LASER_COUNT K]"
    by (rule upt_conv_Cons)
  show ?case
    by (simp add: lasers_loop_unfold [OF lt] laser_body_emitted Suc(1) [OF n] upt
          push_all_append)
qed

lemma firings_loop_unfold:
  "i < BLOCKS_PER_PACKET K \<Longrightarrow>
   firings_loop ops K this packet i pc =
     (case lasers_loop ops K this (blocks packet i) 0 pc of
        Inl e \<Rightarrow> Inl e
      | Inr pc' \<Rightarrow> firings_loop ops K this packet (i + 1) pc')"
  by (subst firings_loop.simps) simp

lemma firings_loop_exit:
  "\<not> i < BLOCKS_PER_PACKET K \<Longrightarrow> firings_loop ops K this packet i pc = Inr pc"
  by (subst firings_loop.simps) simp

lemma firings_loop_emitted:
  "firings_loop ops K this packet i pc =
     (if \<exists>i' \<in> set [i..<BLOCKS_PER_PACKET K]. \<exists>k \<in> set [0..<LASER_COUNT K].
           faults ops K this packet (i', k)
      then Inl TableIndexOutOfRange
      else Inr (push_all pc
             (concat (map (\<lambda>i'. concat (map (\<lambda>k. emitted ops K this packet (i', k))
                                            [0..<LASER_COUNT K]))
                       [i..<BLOCKS_PER_PACKET K]))))"
proof (induction "BLOCKS_PER_PACKET K - i" arbitrary: i pc)
  case 0
  then have "\<not> i < BLOCKS_PER_PACKET K" by simp
  then show ?case by (simp add: firings_loop_exit push_all_Nil)
next
  case (Suc n)
  then have lt: "i < BLOCKS_PER_PACKET K" and n: "n = BLOCKS_PER_PACKET K - Suc i" by simp_all
  from lt have upt: "[i..<BLOCKS_PER_PACKET K] = i # [Suc i..<BLOCKS_PER_PACKET K]"
    by (rule upt_conv_Cons)
  show ?case
    by (simp add: firings_loop_unfold [OF lt] lasers_loop_emitted Suc(1) [OF n] upt
          push_all_append)
qed

text \<open>
  Claim C5. For every packet the converter visits the blocks in packet order and, within a
  block, the laser channels in channel order, calling the corrector once per channel: the
  cloud it returns is the cloud it was given with, appended block after block and channel
  after channel, the corrected point of every channel that has no NaN coordinate, its
  \<open>ring\<close> set to the channel index; a point with a NaN coordinate adds nothing. Where a
  table lookup of the corrector leaves the table there is no cloud.
\<close>

theorem toPointClouds_firing_order:
  "toPointClouds ops K this packet pc =
     (if \<exists>i<BLOCKS_PER_PACKET K. \<exists>j<LASER_COUNT K.
           corrected_point ops K this packet i j = Inl TableIndexOutOfRange
      then Inl TableIndexOutOfRange
      else Inr (push_all pc
             (concat (map (\<lambda>i. concat (map (\<lambda>j. emitted ops K this packet (i, j))
                                           [0..<LASER_COUNT K]))
                       [0..<BLOCKS_PER_PACKET K]))))"
proof -
  have "(\<exists>i' \<in> set [0..<BLOCKS_PER_PACKET K]. \<exists>k \<in> set [0..<LASER_COUNT K].
           faults ops K this packet (i', k))
        = (\<exists>i<BLOCKS_PER_PACKET K. \<exists>j<LASER_COUNT K.
           corrected_point ops K this packet i j = Inl TableIndexOutOfRange)"
    unfolding faults_def by (simp add: Bex_def)
  then show ?thesis
    by (simp only: toPointClouds_def firings_loop_emitted)
qed

subsection \<open>The corrector, case by case\<close>

lemma high_byte: "uint (drop_bit 8 (w :: 16 word)) = uint w div 256"
  by (simp add: drop_bit_eq_div uint_div)

lemma computeXYZIR_outside:
  "outside_window ops this (distance_of ops laserReturn) \<Longrightarrow>
   computeXYZIR ops K this point az laserReturn correction
     = Inr (set_nan ops (point\<lparr>intensity := intensity_of ops laserReturn\<rparr>))"
  by (simp add: computeXYZIR_def Let_def)

lemma computeXYZIR_fault:
  "\<not> outside_window ops this (distance_of ops laserReturn) \<Longrightarrow>
   azimuth_trig ops K this az correction = Inl e \<Longrightarrow>
   computeXYZIR ops K this point az laserReturn correction = Inl e"
  by (simp add: computeXYZIR_def Let_def)

lemma computeXYZIR_inside:
  "\<not> outside_window ops this (distance_of ops laserReturn) \<Longrightarrow>
   azimuth_trig ops K this az correction = Inr (c, s) \<Longrightarrow>
   cartesian ops (distance_of ops laserReturn) c s correction = (x, y, z) \<Longrightarrow>
   computeXYZIR ops K this point az laserReturn correction
     = (if at_origin ops (x, y, z)
        then Inr (set_nan ops (point\<lparr>intensity := intensity_of ops laserReturn,
                                point_x := x, point_y := y, point_z := z\<rparr>))
        else Inr (point\<lparr>intensity := intensity_of ops laserReturn,
                   point_x := x, point_y := y, point_z := z\<rparr>))"
  by (simp add: computeXYZIR_def Let_def)

lemma computeXYZIR_intensity:
  "computeXYZIR ops K this point az laserReturn correction = Inr p \<Longrightarrow>
   intensity p = intensity_of ops laserReturn"
  by (auto simp add: computeXYZIR_def Let_def set_nan_def
        split: if_splits sum.splits prod.splits)

lemma laser_body_skips:
  assumes "f_isnan ops (quiet_NaN ops)"
    and "computeXYZIR ops K this (fresh_point ops) (uint (azimuth firing_data))
           (measures' firing_data j) (laser_corrections (calibration this) j)
         = Inr (set_nan ops q)"
  shows "laser_body ops K this firing_data j pc = Inr pc"
  using assms by (simp add: laser_body_def set_nan_def)


lemmas corrector_defs =
  computeXYZIR_def distance_of_def intensity_of_def outside_window_def f_gt_def
  azimuth_trig_def cartesian_def at_origin_def set_nan_def fresh_point_def Let_def

lemmas ideal_defs =
  ideal_ops_def ideal_state_def zero_correction_def raised_correction_def zero_measure_def
  of_rat_divide

text \<open>
  Claim C2, as amended. When \<open>range * 0.002\<close>, before the distance correction is
  added, is below \<open>min_range\<close> or above \<open>max_range\<close>, the corrected point has NaN
  coordinates. Inside the window, once cosine and sine are there, the coordinates are the
  computed ones, unless all three equal zero, when they are NaN too. In each case the
  intensity is the high byte of the reflectivity.
\<close>

theorem range_window_nan:
  "(outside_window ops this (distance_of ops laserReturn) \<longrightarrow>
      computeXYZIR ops K this point az laserReturn correction
        = Inr (point\<lparr>intensity :=
                      to_float ops (f_of_int ops (uint (reflectivity laserReturn) div 256)),
                    point_x := quiet_NaN ops, point_y := quiet_NaN ops,
                    point_z := quiet_NaN ops\<rparr>))
   \<and> (\<not> outside_window ops this (distance_of ops laserReturn)
        \<and> azimuth_trig ops K this az correction = Inr (c, s)
        \<and> cartesian ops (distance_of ops laserReturn) c s correction = (x, y, z)
      \<longrightarrow>
      computeXYZIR ops K this point az laserReturn correction
        = Inr (point\<lparr>intensity :=
                      to_float ops (f_of_int ops (uint (reflectivity laserReturn) div 256)),
                    point_x := (if at_origin ops (x, y, z) then quiet_NaN ops else x),
                    point_y := (if at_origin ops (x, y, z) then quiet_NaN ops else y),
                    point_z := (if at_origin ops (x, y, z) then quiet_NaN ops else z)\<rparr>))"
  by (simp add: computeXYZIR_outside computeXYZIR_inside intensity_of_def high_byte
        set_nan_def)

theorem range_window_nan_witness:
  "outside_window ideal_ops (ideal_state (Fin 0.5) (Fin 100) zero_correction)
     (distance_of ideal_ops zero_measure)
   \<and> computeXYZIR ideal_ops pandar40 (ideal_state (Fin 0.5) (Fin 100) zero_correction)
        (fresh_point ideal_ops) 0 zero_measure zero_correction
      = Inr \<lparr>point_x = NaN, point_y = NaN, point_z = NaN, intensity = Fin 0, ring = 0\<rparr>
   \<and> \<not> outside_window ideal_ops (ideal_state (Fin 0.5) (Fin 100) zero_correction)
        (distance_of ideal_ops \<lparr>range' = 25000, reflectivity = 0x1234\<rparr>)
   \<and> azimuth_trig ideal_ops pandar40 (ideal_state (Fin 0.5) (Fin 100) zero_correction) 0
        zero_correction = Inr (Fin 1, Fin 0)
   \<and> cartesian ideal_ops (distance_of ideal_ops \<lparr>range' = 25000, reflectivity = 0x1234\<rparr>)
        (Fin 1) (Fin 0) zero_correction = (Fin 0, Fin 50, Fin 0)
   \<and> computeXYZIR ideal_ops pandar40 (ideal_state (Fin 0.5) (Fin 100) zero_correction)
        (fresh_point ideal_ops) 0 \<lparr>range' = 25000, reflectivity = 0x1234\<rparr> zero_correction
      = Inr \<lparr>point_x = Fin 0, point_y = Fin 50, point_z = Fin 0, intensity = Fin 18,
             ring = 0\<rparr>"
proof -
  let ?st = "ideal_state (Fin 0.5) (Fin 100) zero_correction"
  let ?m = "\<lparr>range' = 25000, reflectivity = 0x1234\<rparr>"
  have out: "outside_window ideal_ops ?st (distance_of ideal_ops zero_measure)"
    by (simp add: outside_window_def distance_of_def f_gt_def ideal_defs)
  have ins: "\<not> outside_window ideal_ops ?st (distance_of ideal_ops ?m)"
    by (simp add: outside_window_def distance_of_def f_gt_def ideal_defs)
  have trig: "azimuth_trig ideal_ops pandar40 ?st 0 zero_correction = Inr (Fin 1, Fin 0)"
    by (simp add: azimuth_trig_def ideal_defs pandar40_def)
  have xyz: "cartesian ideal_ops (distance_of ideal_ops ?m) (Fin 1) (Fin 0) zero_correction
      = (Fin 0, Fin 50, Fin 0)"
    by (simp add: cartesian_def distance_of_def ideal_defs Let_def)
  have org: "\<not> at_origin ideal_ops (Fin 0, Fin 50, Fin 0)"
    by (simp add: at_origin_def ideal_defs)
  from range_window_nan [where ops = ideal_ops and this = ?st and laserReturn = zero_measure
      and K = pandar40 and point = "fresh_point ideal_ops" and az = 0
      and correction = zero_correction]
    out
  have a: "computeXYZIR ideal_ops pandar40 ?st (fresh_point ideal_ops) 0 zero_measure
      zero_correction
      = Inr \<lparr>point_x = NaN, point_y = NaN, point_z = NaN, intensity = Fin 0, ring = 0\<rparr>"
    by (simp add: fresh_point_def ideal_defs)
  from range_window_nan [where ops = ideal_ops and this = ?st and laserReturn = ?m
      and K = pandar40 and point = "fresh_point ideal_ops" and az = 0
      and correction = zero_correction and c = "Fin 1" and s = "Fin 0"
      and x = "Fin 0" and y = "Fin 50" and z = "Fin 0"]
    ins trig xyz org
  have b: "computeXYZIR ideal_ops pandar40 ?st (fresh_point ideal_ops) 0 ?m zero_correction
      = Inr \<lparr>point_x = Fin 0, point_y = Fin 50, point_z = Fin 0, intensity = Fin 18,
             ring = 0\<rparr>"
    by (simp add: fresh_point_def ideal_ops_def)
  from out ins trig xyz a b show ?thesis by simp
qed

text \<open>
  Claim C2 as stated fails: with \<open>min_range = 0\<close> and \<open>max_range = 200\<close>, a range of 0
  on a laser without corrections is inside the window, and the point has NaN coordinates,
  its computed coordinates being all zero.
\<close>

theorem range_window_iff_counterexample:
  "\<not> outside_window ideal_ops (ideal_state (Fin 0) (Fin 200) zero_correction)
       (distance_of ideal_ops zero_measure)
   \<and> computeXYZIR ideal_ops pandar40 (ideal_state (Fin 0) (Fin 200) zero_correction)
        (fresh_point ideal_ops) 0 zero_measure zero_correction
      = Inr \<lparr>point_x = NaN, point_y = NaN, point_z = NaN, intensity = Fin 0, ring = 0\<rparr>"
  by (simp add: corrector_defs ideal_defs pandar40_def)


text \<open>
  Claim C4. For a measurement inside the range window whose computed coordinates satisfy
  \<open>x == 0\<close>, \<open>y == 0\<close> and \<open>z == 0\<close>, the corrector replaces the coordinates by NaN,
  and the converter's pass for that channel leaves the cloud as it was. (\<open>pcl_isnan\<close> is
  taken to hold of the quiet NaN.)
\<close>

theorem origin_point_excluded:
  assumes "f_isnan ops (quiet_NaN ops)"
    and "\<not> outside_window ops this (distance_of ops (measures' firing_data j))"
    and "azimuth_trig ops K this (uint (azimuth firing_data))
           (laser_corrections (calibration this) j) = Inr (c, s)"
    and "at_origin ops (cartesian ops (distance_of ops (measures' firing_data j)) c s
           (laser_corrections (calibration this) j))"
  shows "computeXYZIR ops K this point (uint (azimuth firing_data))
           (measures' firing_data j) (laser_corrections (calibration this) j)
         = Inr (point\<lparr>intensity := intensity_of ops (measures' firing_data j),
                     point_x := quiet_NaN ops, point_y := quiet_NaN ops,
                     point_z := quiet_NaN ops\<rparr>)
     \<and> laser_body ops K this firing_data j pc = Inr pc"
proof -
  obtain x y z where xyz: "cartesian ops (distance_of ops (measures' firing_data j)) c s
      (laser_corrections (calibration this) j) = (x, y, z)"
    by (cases "cartesian ops (distance_of ops (measures' firing_data j)) c s
      (laser_corrections (calibration this) j)") auto
  have val: "computeXYZIR ops K this q (uint (azimuth firing_data))
           (measures' firing_data j) (laser_corrections (calibration this) j)
         = Inr (set_nan ops (q\<lparr>intensity := intensity_of ops (measures' firing_data j),
                     point_x := x, point_y := y, point_z := z\<rparr>))" for q
    using computeXYZIR_inside [OF assms(2,3) xyz, of q] assms(4) by (simp add: xyz)
  have "laser_body ops K this firing_data j pc = Inr pc"
    using laser_body_skips [OF assms(1) val] .
  then show ?thesis
    by (simp add: val set_nan_def)
qed

theorem origin_point_excluded_witness:
  "f_isnan ideal_ops (quiet_NaN ideal_ops)
   \<and> \<not> outside_window ideal_ops (ideal_state (Fin 0) (Fin 200) zero_correction)
        (distance_of ideal_ops (measures' (blocks zero_packet 0) 0))
   \<and> azimuth_trig ideal_ops pandar40 (ideal_state (Fin 0) (Fin 200) zero_correction)
        (uint (azimuth (blocks zero_packet 0))) zero_correction = Inr (Fin 1, Fin 0)
   \<and> at_origin ideal_ops
        (cartesian ideal_ops (distance_of ideal_ops (measures' (blocks zero_packet 0) 0))
           (Fin 1) (Fin 0) zero_correction)
   \<and> computeXYZIR ideal_ops pandar40 (ideal_state (Fin 0) (Fin 200) zero_correction)
        (fresh_point ideal_ops) (uint (azimuth (blocks zero_packet 0)))
        (measures' (blocks zero_packet 0) 0) zero_correction
      = Inr \<lparr>point_x = NaN, point_y = NaN, point_z = NaN, intensity = Fin 0, ring = 0\<rparr>
   \<and> laser_body ideal_ops pandar40 (ideal_state (Fin 0) (Fin 200) zero_correction)
        (blocks zero_packet 0) 0 empty_cloud = Inr empty_cloud"
proof -
  let ?st = "ideal_state (Fin 0) (Fin 200) zero_correction"
  have corr: "laser_corrections (calibration ?st) 0 = zero_correction"
    by (simp add: ideal_state_def)
  have nan: "f_isnan ideal_ops (quiet_NaN ideal_ops)"
    by (simp add: ideal_ops_def)
  have ins: "\<not> outside_window ideal_ops ?st
      (distance_of ideal_ops (measures' (blocks zero_packet 0) 0))"
    by (simp add: outside_window_def distance_of_def f_gt_def ideal_defs zero_packet_def)
  have trig: "azimuth_trig ideal_ops pandar40 ?st (uint (azimuth (blocks zero_packet 0)))
      zero_correction = Inr (Fin 1, Fin 0)"
    by (simp add: azimuth_trig_def ideal_defs pandar40_def zero_packet_def)
  have org: "at_origin ideal_ops
      (cartesian ideal_ops (distance_of ideal_ops (measures' (blocks zero_packet 0) 0))
         (Fin 1) (Fin 0) zero_correction)"
    by (simp add: at_origin_def cartesian_def distance_of_def ideal_defs zero_packet_def
          Let_def)
  from origin_point_excluded [where ops = ideal_ops and this = ?st and K = pandar40
      and firing_data = "blocks zero_packet 0" and j = 0 and c = "Fin 1" and s = "Fin 0"
      and point = "fresh_point ideal_ops" and pc = empty_cloud, unfolded corr,
      OF nan ins trig org]
  have "computeXYZIR ideal_ops pandar40 ?st (fresh_point ideal_ops)
        (uint (azimuth (blocks zero_packet 0))) (measures' (blocks zero_packet 0) 0)
        zero_correction
      = Inr \<lparr>point_x = NaN, point_y = NaN, point_z = NaN, intensity = Fin 0, ring = 0\<rparr>
    \<and> laser_body ideal_ops pandar40 ?st (blocks zero_packet 0) 0 empty_cloud
      = Inr empty_cloud"
    by (simp add: fresh_point_def intensity_of_def ideal_defs zero_packet_def)
  with nan ins trig org show ?thesis by simp
qed


subsection \<open>The example packet\<close>

lemma example_layout_facts:
  "length example_buf = PACKET_SIZE example_layout"
  "BLOCKS_PER_PACKET example_layout = 1" "LASER_COUNT example_layout = 2"
  "measure_offset example_layout 0 0 = 4" "measure_offset example_layout 0 1 = 9"
  "block_offset example_layout 0 = 0"
  by (simp_all add: PACKET_SIZE_def BLOCK_SIZE_def example_layout_def example_buf_def
        measure_offset_def block_offset_def)

lemma example_packet:
  "azimuth (blocks (snd (parseRawData example_layout zero_packet example_buf)) 0) = 0"
  "measures' (blocks (snd (parseRawData example_layout zero_packet example_buf)) 0) 0
     = \<lparr>range' = 25000, reflectivity = 0x1234\<rparr>"
  "measures' (blocks (snd (parseRawData example_layout zero_packet example_buf)) 0) 1
     = \<lparr>range' = 0, reflectivity = 0\<rparr>"
proof -
  show "azimuth (blocks (snd (parseRawData example_layout zero_packet example_buf)) 0) = 0"
    by (simp add: parse_blocks example_layout_facts block_at_fields)
       (simp add: byte_at_def example_buf_def)
  show "measures' (blocks (snd (parseRawData example_layout zero_packet example_buf)) 0) 0
     = \<lparr>range' = 25000, reflectivity = 0x1234\<rparr>"
    by (simp add: parse_measure example_layout_facts)
       (simp add: read_measure_def byte_at_def example_buf_def)
  show "measures' (blocks (snd (parseRawData example_layout zero_packet example_buf)) 0) 1
     = \<lparr>range' = 0, reflectivity = 0\<rparr>"
    by (simp add: parse_measure example_layout_facts del: One_nat_def)
       (simp add: read_measure_def byte_at_def example_buf_def)
qed

theorem toPointClouds_firing_order_witness:
  "toPointClouds ideal_ops example_layout (ideal_state (Fin 0.5) (Fin 100) zero_correction)
     (snd (parseRawData example_layout zero_packet example_buf)) empty_cloud
   = Inr \<lparr>points = [\<lparr>point_x = Fin 0, point_y = Fin 50, point_z = Fin 0,
                       intensity = Fin 18, ring = 0\<rparr>],
          width = 1\<rparr>"
proof -
  let ?st = "ideal_state (Fin 0.5) (Fin 100) zero_correction"
  let ?p = "snd (parseRawData example_layout zero_packet example_buf)"
  have c0: "corrected_point ideal_ops example_layout ?st ?p 0 0
      = Inr \<lparr>point_x = Fin 0, point_y = Fin 50, point_z = Fin 0, intensity = Fin 18,
             ring = 0\<rparr>"
    by (simp add: corrected_point_def example_packet)
       (simp add: corrector_defs ideal_defs example_layout_def)
  have c1: "corrected_point ideal_ops example_layout ?st ?p 0 1
      = Inr \<lparr>point_x = NaN, point_y = NaN, point_z = NaN, intensity = Fin 0, ring = 0\<rparr>"
    by (simp add: corrected_point_def example_packet del: One_nat_def)
       (simp add: corrector_defs ideal_defs example_layout_def)
  have one: "(\<exists>i<1. P i) = P 0" for P :: "nat \<Rightarrow> bool"
    by simp
  have two: "(\<exists>j<2. P j) = (P 0 \<or> P 1)" for P :: "nat \<Rightarrow> bool"
    by (auto simp add: less_2_cases_iff)
  have upt: "[0..<1] = [0::nat]" "[0..<2] = [0, 1::nat]"
    by code_simp+
  have n0: "\<not> has_nan ideal_ops \<lparr>point_x = Fin 0, point_y = Fin 50, point_z = Fin 0,
      intensity = Fin 18, ring = 0\<rparr>"
    by (simp add: has_nan_def ideal_ops_def)
  have n1: "has_nan ideal_ops \<lparr>point_x = NaN, point_y = NaN, point_z = NaN,
      intensity = Fin 0, ring = 0\<rparr>"
    by (simp add: has_nan_def ideal_ops_def)
  show ?thesis
    apply (simp only: toPointClouds_firing_order example_layout_facts one two upt)
    apply (simp only: emitted_def fst_conv snd_conv list.map concat.simps c0 c1 sum.case
             n0 n1)
    apply (simp add: push_all_def empty_cloud_def)
    done
qed


subsection \<open>Zeroed measurements\<close>

lemma pandar40_facts:
  "spec_widths pandar40" "PACKET_SIZE pandar40 = 1240"
  "BLOCKS_PER_PACKET pandar40 = 6" "LASER_COUNT pandar40 = 40"
  "ROTATION_MAX_UNITS pandar40 = 36000"
  "block_offset pandar40 0 = 0" "measure_offset pandar40 0 0 = 4"
  "measure_offset pandar40 5 39 = 1219"
  by (simp_all add: spec_widths_def PACKET_SIZE_def BLOCK_SIZE_def pandar40_def
        block_offset_def measure_offset_def)

lemma sentinel_buf_facts:
  "length sentinel_buf = PACKET_SIZE pandar40"
  "wire_field sentinel_buf 4 3 = 0x010101" "wire_field sentinel_buf 7 2 = 0x0101"
  "wire_field sentinel_buf 1219 3 = 0x010101" "wire_field sentinel_buf 1222 2 = 0x0101"
  "wire_field sentinel_buf 2 2 = 257"
proof -
  have three: "le_value (replicate 3 1) = 0x010101" by (simp add: numeral_3_eq_3)
  have two: "le_value (replicate 2 1) = 0x0101" by (simp add: numeral_2_eq_2)
  show "length sentinel_buf = PACKET_SIZE pandar40"
    by (simp add: sentinel_buf_def pandar40_facts)
  show "wire_field sentinel_buf 4 3 = 0x010101" "wire_field sentinel_buf 1219 3 = 0x010101"
    by (simp_all add: wire_field_def sentinel_buf_def three)
  show "wire_field sentinel_buf 7 2 = 0x0101" "wire_field sentinel_buf 1222 2 = 0x0101"
    "wire_field sentinel_buf 2 2 = 257"
    by (simp_all add: wire_field_def sentinel_buf_def two)
qed

text \<open>
  Claim C7, as amended. For a buffer of the wire size, every measurement that the parser
  zeroed (sentinel pair or range above 100000) yields a point with NaN coordinates in the
  correction step, without a fault, and the converter's pass for that channel leaves the
  cloud as it was, in each of two cases: the range window leaves out the distance of a
  zero range (\<open>0 * 0.002\<close> is below \<open>min_range\<close> or above \<open>max_range\<close>); or cosine
  and sine of the azimuth are there and the coordinates computed for the zero distance all
  equal zero, which the origin test excludes. (\<open>pcl_isnan\<close> is taken to hold of the
  quiet NaN.)
\<close>

theorem zeroed_measurement_excluded:
  assumes "f_isnan ops (quiet_NaN ops)"
    and "length buf = PACKET_SIZE K" and "spec_widths K"
    and "i < BLOCKS_PER_PACKET K" and "j < LASER_COUNT K"
    and "(wire_field buf (measure_offset K i j) 3 = 0x010101
            \<and> wire_field buf (measure_offset K i j + 3) 2 = 0x0101)
         \<or> wire_field buf (measure_offset K i j) 3 > 100000"
    and "outside_window ops this (distance_of ops \<lparr>range' = 0, reflectivity = 0\<rparr>)
         \<or> (azimuth_trig ops K this
               (uint (azimuth (blocks (snd (parseRawData K packet buf)) i)))
               (laser_corrections (calibration this) j) = Inr (c, s)
             \<and> at_origin ops
                 (cartesian ops (distance_of ops \<lparr>range' = 0, reflectivity = 0\<rparr>) c s
                    (laser_corrections (calibration this) j)))"
  shows "measures' (blocks (snd (parseRawData K packet buf)) i) j
           = \<lparr>range' = 0, reflectivity = 0\<rparr>
     \<and> computeXYZIR ops K this point
           (uint (azimuth (blocks (snd (parseRawData K packet buf)) i)))
           (measures' (blocks (snd (parseRawData K packet buf)) i) j)
           (laser_corrections (calibration this) j)
         = Inr (point\<lparr>intensity := to_float ops (f_of_int ops 0),
                     point_x := quiet_NaN ops, point_y := quiet_NaN ops,
                     point_z := quiet_NaN ops\<rparr>)
     \<and> laser_body ops K this (blocks (snd (parseRawData K packet buf)) i) j pc = Inr pc"
proof -
  let ?b = "blocks (snd (parseRawData K packet buf)) i"
  let ?z = "\<lparr>range' = 0, reflectivity = 0\<rparr>"
  let ?corr = "laser_corrections (calibration this) j"
  have m: "measures' ?b j = ?z"
    using assms(6)
    by (auto simp add: parse_measure_spec [OF assms(2-5)] spec_measure_def invalid_return_def)
  have val0: "\<exists>q'. computeXYZIR ops K this q (uint (azimuth ?b)) ?z ?corr
           = Inr (set_nan ops q') \<and> intensity q' = intensity_of ops ?z"
    for q
  proof (cases "outside_window ops this (distance_of ops ?z)")
    case True
    then show ?thesis
      using computeXYZIR_outside [OF True, of K q "uint (azimuth ?b)" ?corr] by auto
  next
    case False
    with assms(7) have t: "azimuth_trig ops K this (uint (azimuth ?b)) ?corr = Inr (c, s)"
      and o: "at_origin ops (cartesian ops (distance_of ops ?z) c s ?corr)"
      by blast+
    obtain x y z where xyz: "cartesian ops (distance_of ops ?z) c s ?corr = (x, y, z)"
      using prod_cases3 by blast
    from computeXYZIR_inside [OF False t xyz, of q] o
    show ?thesis by (auto simp add: xyz)
  qed
  have nan_form: "set_nan ops q' = q\<lparr>intensity := to_float ops (f_of_int ops 0),
        point_x := quiet_NaN ops, point_y := quiet_NaN ops, point_z := quiet_NaN ops\<rparr>"
    if "computeXYZIR ops K this q (uint (azimuth ?b)) ?z ?corr = Inr (set_nan ops q')"
      and "intensity q' = intensity_of ops ?z" for q q'
  proof (cases "outside_window ops this (distance_of ops ?z)")
    case True
    from computeXYZIR_outside [OF True, of K q "uint (azimuth ?b)" ?corr] that(1)
    show ?thesis by (simp add: set_nan_def intensity_of_def)
  next
    case False
    with assms(7) have t: "azimuth_trig ops K this (uint (azimuth ?b)) ?corr = Inr (c, s)"
      and o: "at_origin ops (cartesian ops (distance_of ops ?z) c s ?corr)"
      by blast+
    obtain x y z where xyz: "cartesian ops (distance_of ops ?z) c s ?corr = (x, y, z)"
      using prod_cases3 by blast
    from computeXYZIR_inside [OF False t xyz, of q] o that(1)
    show ?thesis by (simp add: xyz set_nan_def intensity_of_def)
  qed
  from val0 [of point] obtain q' where
    v: "computeXYZIR ops K this point (uint (azimuth ?b)) ?z ?corr = Inr (set_nan ops q')"
    and "intensity q' = intensity_of ops ?z" by blast
  then have res: "computeXYZIR ops K this point (uint (azimuth ?b)) ?z ?corr
      = Inr (point\<lparr>intensity := to_float ops (f_of_int ops 0),
        point_x := quiet_NaN ops, point_y := quiet_NaN ops, point_z := quiet_NaN ops\<rparr>)"
    using nan_form [of point q'] by simp
  from val0 [of "fresh_point ops"] obtain q'' where
    "computeXYZIR ops K this (fresh_point ops) (uint (azimuth ?b)) ?z ?corr
       = Inr (set_nan ops q'')" by blast
  then have "computeXYZIR ops K this (fresh_point ops) (uint (azimuth ?b)) (measures' ?b j)
      ?corr = Inr (set_nan ops q'')"
    by (simp only: m)
  then have "laser_body ops K this ?b j pc = Inr pc"
    by (rule laser_body_skips [OF assms(1)])
  with m res show ?thesis by (simp only: m)
qed

theorem zeroed_measurement_excluded_witness:
  "f_isnan ideal_ops (quiet_NaN ideal_ops)
   \<and> length sentinel_buf = PACKET_SIZE pandar40 \<and> spec_widths pandar40
   \<and> 5 < BLOCKS_PER_PACKET pandar40 \<and> 39 < LASER_COUNT pandar40
   \<and> wire_field sentinel_buf (measure_offset pandar40 5 39) 3 = 0x010101
   \<and> wire_field sentinel_buf (measure_offset pandar40 5 39 + 3) 2 = 0x0101
   \<and> outside_window ideal_ops (ideal_state (Fin 0.5) (Fin 100) raised_correction)
        (distance_of ideal_ops \<lparr>range' = 0, reflectivity = 0\<rparr>)
   \<and> measures' (blocks (snd (parseRawData pandar40 zero_packet sentinel_buf)) 5) 39
        = \<lparr>range' = 0, reflectivity = 0\<rparr>
   \<and> computeXYZIR ideal_ops pandar40 (ideal_state (Fin 0.5) (Fin 100) raised_correction)
        (fresh_point ideal_ops)
        (uint (azimuth (blocks (snd (parseRawData pandar40 zero_packet sentinel_buf)) 5)))
        (measures' (blocks (snd (parseRawData pandar40 zero_packet sentinel_buf)) 5) 39)
        raised_correction
      = Inr \<lparr>point_x = NaN, point_y = NaN, point_z = NaN, intensity = Fin 0, ring = 0\<rparr>
   \<and> laser_body ideal_ops pandar40 (ideal_state (Fin 0.5) (Fin 100) raised_correction)
        (blocks (snd (parseRawData pandar40 zero_packet sentinel_buf)) 5) 39 empty_cloud
      = Inr empty_cloud
   \<and> \<not> outside_window ideal_ops (ideal_state (Fin 0) (Fin 200) zero_correction)
        (distance_of ideal_ops \<lparr>range' = 0, reflectivity = 0\<rparr>)
   \<and> azimuth_trig ideal_ops pandar40 (ideal_state (Fin 0) (Fin 200) zero_correction)
        (uint (azimuth (blocks (snd (parseRawData pandar40 zero_packet sentinel_buf)) 5)))
        zero_correction
      = Inr (cos_lookup_table (ideal_state (Fin 0) (Fin 200) zero_correction) 257,
             sin_lookup_table (ideal_state (Fin 0) (Fin 200) zero_correction) 257)
   \<and> at_origin ideal_ops
        (cartesian ideal_ops (distance_of ideal_ops \<lparr>range' = 0, reflectivity = 0\<rparr>)
           (cos_lookup_table (ideal_state (Fin 0) (Fin 200) zero_correction) 257)
           (sin_lookup_table (ideal_state (Fin 0) (Fin 200) zero_correction) 257)
           zero_correction)
   \<and> computeXYZIR ideal_ops pandar40 (ideal_state (Fin 0) (Fin 200) zero_correction)
        (fresh_point ideal_ops)
        (uint (azimuth (blocks (snd (parseRawData pandar40 zero_packet sentinel_buf)) 5)))
        (measures' (blocks (snd (parseRawData pandar40 zero_packet sentinel_buf)) 5) 39)
        zero_correction
      = Inr \<lparr>point_x = NaN, point_y = NaN, point_z = NaN, intensity = Fin 0, ring = 0\<rparr>
   \<and> laser_body ideal_ops pandar40 (ideal_state (Fin 0) (Fin 200) zero_correction)
        (blocks (snd (parseRawData pandar40 zero_packet sentinel_buf)) 5) 39 empty_cloud
      = Inr empty_cloud"
proof -
  let ?st = "ideal_state (Fin 0.5) (Fin 100) raised_correction"
  let ?inner = "ideal_state (Fin 0) (Fin 200) zero_correction"
  let ?b = "blocks (snd (parseRawData pandar40 zero_packet sentinel_buf)) 5"
  let ?z = "\<lparr>range' = 0, reflectivity = 0\<rparr>"
  have corr: "laser_corrections (calibration ?st) 39 = raised_correction"
    "laser_corrections (calibration ?inner) 39 = zero_correction"
    by (simp_all add: ideal_state_def)
  have nan: "f_isnan ideal_ops (quiet_NaN ideal_ops)"
    by (simp add: ideal_ops_def)
  have i: "5 < BLOCKS_PER_PACKET pandar40" and j: "39 < LASER_COUNT pandar40"
    by (simp_all add: pandar40_facts)
  have r: "wire_field sentinel_buf (measure_offset pandar40 5 39) 3 = 0x010101"
    and f: "wire_field sentinel_buf (measure_offset pandar40 5 39 + 3) 2 = 0x0101"
    by (simp_all add: pandar40_facts sentinel_buf_facts)
  from r f have inv: "(wire_field sentinel_buf (measure_offset pandar40 5 39) 3 = 0x010101
            \<and> wire_field sentinel_buf (measure_offset pandar40 5 39 + 3) 2 = 0x0101)
         \<or> wire_field sentinel_buf (measure_offset pandar40 5 39) 3 > 100000"
    by simp
  have out: "outside_window ideal_ops ?st (distance_of ideal_ops ?z)"
    by (simp add: outside_window_def distance_of_def f_gt_def ideal_defs)
  have ins: "\<not> outside_window ideal_ops ?inner (distance_of ideal_ops ?z)"
    by (simp add: outside_window_def distance_of_def f_gt_def ideal_defs)
  have bo: "block_offset pandar40 5 + 2 = 1022"
    by (simp add: block_offset_def BLOCK_SIZE_def pandar40_def)
  have wf: "wire_field sentinel_buf 1022 2 = 257"
    by (simp add: wire_field_def sentinel_buf_def) (simp add: numeral_2_eq_2)
  have "unat (azimuth ?b) = 257"
    using parse_sob_azimuth_spec(2) [OF sentinel_buf_facts(1) pandar40_facts(1) i,
        of zero_packet]
    by (simp only: bo wf)
  then have az: "uint (azimuth ?b) = 257"
    by (simp add: uint_nat)
  have trig: "azimuth_trig ideal_ops pandar40 ?inner (uint (azimuth ?b)) zero_correction
      = Inr (cos_lookup_table ?inner 257, sin_lookup_table ?inner 257)"
    by (simp only: az) (simp add: azimuth_trig_def ideal_defs pandar40_def)
  have org: "at_origin ideal_ops (cartesian ideal_ops (distance_of ideal_ops ?z)
      (cos_lookup_table ?inner 257) (sin_lookup_table ?inner 257) zero_correction)"
    by (simp add: at_origin_def cartesian_def distance_of_def ideal_defs Let_def)
  have pt: "(fresh_point ideal_ops)\<lparr>intensity := to_float ideal_ops (f_of_int ideal_ops 0),
      point_x := quiet_NaN ideal_ops, point_y := quiet_NaN ideal_ops,
      point_z := quiet_NaN ideal_ops\<rparr>
    = \<lparr>point_x = NaN, point_y = NaN, point_z = NaN, intensity = Fin 0, ring = 0\<rparr>"
    by (simp add: fresh_point_def ideal_ops_def)
  note a = zeroed_measurement_excluded [where ops = ideal_ops and this = ?st
      and point = "fresh_point ideal_ops" and pc = empty_cloud and packet = zero_packet
      and K = pandar40 and buf = sentinel_buf and i = 5 and j = 39
      and c = "Fin 0" and s = "Fin 0",
      unfolded corr pt,
      OF nan sentinel_buf_facts(1) pandar40_facts(1) i j inv disjI1 [OF out]]
  note b = zeroed_measurement_excluded [where ops = ideal_ops and this = ?inner
      and point = "fresh_point ideal_ops" and pc = empty_cloud and packet = zero_packet
      and K = pandar40 and buf = sentinel_buf and i = 5 and j = 39
      and c = "cos_lookup_table ?inner 257" and s = "sin_lookup_table ?inner 257",
      unfolded corr pt,
      OF nan sentinel_buf_facts(1) pandar40_facts(1) i j inv disjI2 [OF conjI [OF trig org]]]
  from nan sentinel_buf_facts(1) pandar40_facts(1) i j r f out a ins trig org b
  show ?thesis
    by (intro conjI) (erule conjunct1 conjunct2 | assumption | elim conjE)+
qed

text \<open>
  Claim C7 as stated fails: with \<open>min_range = 0\<close>, \<open>max_range = 200\<close> and a laser whose
  vertical offset correction is one metre, the sentinel measurement of channel 0 of block 0
  is zeroed by the parser, its corrected point is \<open>(0, 0, 1)\<close> with no NaN coordinate,
  and the converter's pass for that channel appends it to the cloud.
\<close>

theorem zeroed_measurement_counterexample:
  "length sentinel_buf = PACKET_SIZE pandar40
   \<and> wire_field sentinel_buf (measure_offset pandar40 0 0) 3 = 0x010101
   \<and> wire_field sentinel_buf (measure_offset pandar40 0 0 + 3) 2 = 0x0101
   \<and> measures' (blocks (snd (parseRawData pandar40 zero_packet sentinel_buf)) 0) 0
        = \<lparr>range' = 0, reflectivity = 0\<rparr>
   \<and> corrected_point ideal_ops pandar40 (ideal_state (Fin 0) (Fin 200) raised_correction)
        (snd (parseRawData pandar40 zero_packet sentinel_buf)) 0 0
      = Inr \<lparr>point_x = Fin 0, point_y = Fin 0, point_z = Fin 1, intensity = Fin 0,
             ring = 0\<rparr>
   \<and> laser_body ideal_ops pandar40 (ideal_state (Fin 0) (Fin 200) raised_correction)
        (blocks (snd (parseRawData pandar40 zero_packet sentinel_buf)) 0) 0 empty_cloud
      = Inr \<lparr>points = [\<lparr>point_x = Fin 0, point_y = Fin 0, point_z = Fin 1,
                          intensity = Fin 0, ring = 0\<rparr>],
             width = 1\<rparr>"
proof -
  let ?st = "ideal_state (Fin 0) (Fin 200) raised_correction"
  let ?p = "snd (parseRawData pandar40 zero_packet sentinel_buf)"
  have i: "0 < BLOCKS_PER_PACKET pandar40" and j: "0 < LASER_COUNT pandar40"
    by (simp_all add: pandar40_facts)
  have r: "wire_field sentinel_buf (measure_offset pandar40 0 0) 3 = 0x010101"
    and f: "wire_field sentinel_buf (measure_offset pandar40 0 0 + 3) 2 = 0x0101"
    by (simp_all add: pandar40_facts sentinel_buf_facts)
  have m: "measures' (blocks ?p 0) 0 = \<lparr>range' = 0, reflectivity = 0\<rparr>"
    using parse_measure_spec [OF sentinel_buf_facts(1) pandar40_facts(1) i j, of zero_packet]
    by (simp only: r f) (simp add: spec_measure_def invalid_return_def)
  have "unat (azimuth (blocks ?p 0)) = 257"
    using parse_sob_azimuth_spec(2) [OF sentinel_buf_facts(1) pandar40_facts(1) i,
        of zero_packet]
    by (simp only: pandar40_facts add_0 sentinel_buf_facts)
  then have az: "uint (azimuth (blocks ?p 0)) = 257"
    by (simp add: uint_nat)
  have c: "corrected_point ideal_ops pandar40 ?st ?p 0 0
      = Inr \<lparr>point_x = Fin 0, point_y = Fin 0, point_z = Fin 1, intensity = Fin 0,
             ring = 0\<rparr>"
    by (simp only: corrected_point_def m az)
       (simp add: corrector_defs ideal_defs pandar40_def)
  have b: "laser_body ideal_ops pandar40 ?st (blocks ?p 0) 0 empty_cloud
      = Inr \<lparr>points = [\<lparr>point_x = Fin 0, point_y = Fin 0, point_z = Fin 1,
                          intensity = Fin 0, ring = 0\<rparr>],
             width = 1\<rparr>"
    using c by (simp only: laser_body_def corrected_point_def)
       (simp add: ideal_ops_def empty_cloud_def)
  from sentinel_buf_facts(1) r f m c b show ?thesis
    by (intro conjI)
qed

subsection \<open>The angle window\<close>

lemma setParameters_fields:
  "min_range (config (setParameters ops lo hi vd vw this)) = lo"
  "max_range (config (setParameters ops lo hi vd vw this)) = hi"
  "calibration (setParameters ops lo hi vd vw this) = calibration this"
  "cos_lookup_table (setParameters ops lo hi vd vw this) = cos_lookup_table this"
  "sin_lookup_table (setParameters ops lo hi vd vw this) = sin_lookup_table this"
  by (simp_all add: setParameters_def Let_def)

lemma computeXYZIR_state_cong:
  assumes "min_range (config a) = min_range (config b)"
    and "max_range (config a) = max_range (config b)"
    and "cos_lookup_table a = cos_lookup_table b"
    and "sin_lookup_table a = sin_lookup_table b"
  shows "computeXYZIR ops K a point az laserReturn correction
           = computeXYZIR ops K b point az laserReturn correction"
proof -
  have w: "outside_window ops a d = outside_window ops b d" for d
    by (simp add: outside_window_def assms(1,2))
  have t: "azimuth_trig ops K a az correction = azimuth_trig ops K b az correction"
    by (simp add: azimuth_trig_def assms(3,4))
  show ?thesis
    by (simp only: computeXYZIR_def w t)
qed

lemma corrected_point_state_cong:
  assumes "min_range (config a) = min_range (config b)"
    and "max_range (config a) = max_range (config b)"
    and "cos_lookup_table a = cos_lookup_table b"
    and "sin_lookup_table a = sin_lookup_table b"
    and "calibration a = calibration b"
  shows "corrected_point ops K a packet i j = corrected_point ops K b packet i j"
  by (simp add: corrected_point_def computeXYZIR_state_cong [OF assms(1-4)] assms(5))

text \<open>
  Claim C9. Two calls of \<open>setParameters\<close> with the same \<open>min_range\<close> and
  \<open>max_range\<close> and any two values of \<open>view_direction\<close> and \<open>view_width\<close> leave
  accessors that correct every measurement to the same point, and that filter and convert
  every packet to the same cloud.
\<close>

theorem view_window_unused:
  "computeXYZIR ops K (setParameters ops lo hi view_direction view_width this)
       point az laserReturn correction
     = computeXYZIR ops K (setParameters ops lo hi view_direction' view_width' this)
         point az laserReturn correction
   \<and> laser_body ops K (setParameters ops lo hi view_direction view_width this)
        firing_data j pc
     = laser_body ops K (setParameters ops lo hi view_direction' view_width' this)
         firing_data j pc
   \<and> toPointClouds ops K (setParameters ops lo hi view_direction view_width this) packet pc
     = toPointClouds ops K (setParameters ops lo hi view_direction' view_width' this)
         packet pc"
proof -
  let ?a = "setParameters ops lo hi view_direction view_width this"
  let ?b = "setParameters ops lo hi view_direction' view_width' this"
  have c: "computeXYZIR ops K ?a p a m c = computeXYZIR ops K ?b p a m c" for p a m c
    by (rule computeXYZIR_state_cong) (simp_all add: setParameters_fields)
  have cp: "corrected_point ops K ?a packet i k = corrected_point ops K ?b packet i k"
    for i k
    by (rule corrected_point_state_cong) (simp_all add: setParameters_fields)
  have l: "laser_body ops K ?a firing_data j pc = laser_body ops K ?b firing_data j pc"
    by (simp add: laser_body_def c setParameters_fields)
  have t: "toPointClouds ops K ?a packet pc = toPointClouds ops K ?b packet pc"
    by (simp add: toPointClouds_def firings_loop_emitted faults_def emitted_def cp)
  from c l t show ?thesis by simp
qed

theorem view_window_unused_witness:
  "computeXYZIR ideal_ops pandar40
     (setParameters ideal_ops (Fin 0.5) (Fin 100) (Fin 0) (Fin 1)
        (ideal_state (Fin 0) (Fin 0) zero_correction))
     (fresh_point ideal_ops) 0 \<lparr>range' = 25000, reflectivity = 0x1234\<rparr> zero_correction
   = Inr \<lparr>point_x = Fin 0, point_y = Fin 50, point_z = Fin 0, intensity = Fin 18, ring = 0\<rparr>
   \<and> computeXYZIR ideal_ops pandar40
     (setParameters ideal_ops (Fin 0.5) (Fin 100) (Fin 2) (Fin 3)
        (ideal_state (Fin 0) (Fin 0) zero_correction))
     (fresh_point ideal_ops) 0 \<lparr>range' = 25000, reflectivity = 0x1234\<rparr> zero_correction
   = Inr \<lparr>point_x = Fin 0, point_y = Fin 50, point_z = Fin 0, intensity = Fin 18, ring = 0\<rparr>"
proof -
  let ?st = "ideal_state (Fin 0) (Fin 0) zero_correction"
  let ?m = "\<lparr>range' = 25000, reflectivity = 0x1234\<rparr>"
  have a: "computeXYZIR ideal_ops pandar40
      (setParameters ideal_ops (Fin 0.5) (Fin 100) (Fin 0) (Fin 1) ?st)
      (fresh_point ideal_ops) 0 ?m zero_correction
    = Inr \<lparr>point_x = Fin 0, point_y = Fin 50, point_z = Fin 0, intensity = Fin 18,
           ring = 0\<rparr>"
  proof -
    have "computeXYZIR ideal_ops pandar40
        (setParameters ideal_ops (Fin 0.5) (Fin 100) (Fin 0) (Fin 1) ?st)
        (fresh_point ideal_ops) 0 ?m zero_correction
      = computeXYZIR ideal_ops pandar40 (ideal_state (Fin 0.5) (Fin 100) zero_correction)
          (fresh_point ideal_ops) 0 ?m zero_correction"
      by (rule computeXYZIR_state_cong)
         (simp_all only: setParameters_fields, simp_all add: ideal_state_def)
    also have "\<dots> = Inr \<lparr>point_x = Fin 0, point_y = Fin 50, point_z = Fin 0,
        intensity = Fin 18, ring = 0\<rparr>"
      by (simp add: corrector_defs ideal_defs pandar40_def)
    finally show ?thesis .
  qed
  from view_window_unused [where ops = ideal_ops and K = pandar40 and lo = "Fin 0.5"
      and hi = "Fin 100" and view_direction = "Fin 0" and view_width = "Fin 1"
      and view_direction' = "Fin 2" and view_width' = "Fin 3" and this = ?st
      and point = "fresh_point ideal_ops" and az = 0 and laserReturn = ?m
      and correction = zero_correction, THEN conjunct1] a
  show ?thesis by (simp only: simp_thms)
qed


subsection \<open>Cosine and sine do not spread errors\<close>





subsection \<open>The loop of setup\<close>






subsection \<open>The corrector reads the tables\<close>

lemma azimuth_trig_table:
  assumes "f_eq ops (azimuthCorrection correction) (f_of_int ops 0)"
    and "0 \<le> az" and "az < int (ROTATION_MAX_UNITS K)"
  shows "azimuth_trig ops K this az correction
           = Inr (cos_lookup_table this (nat az), sin_lookup_table this (nat az))"
  using assms by (simp add: azimuth_trig_def)

lemma computeXYZIR_table:
  assumes "f_eq ops (azimuthCorrection correction) (f_of_int ops 0)"
    and "\<not> outside_window ops this (distance_of ops laserReturn)"
    and "0 \<le> az" and "az < int (ROTATION_MAX_UNITS K)"
  shows "computeXYZIR ops K this point az laserReturn correction
     = (case cartesian ops (distance_of ops laserReturn)
               (cos_lookup_table this (nat az)) (sin_lookup_table this (nat az)) correction of
          (x, y, z) \<Rightarrow>
            if at_origin ops (x, y, z)
            then Inr (set_nan ops (point\<lparr>intensity := intensity_of ops laserReturn,
                                    point_x := x, point_y := y, point_z := z\<rparr>))
            else Inr (point\<lparr>intensity := intensity_of ops laserReturn,
                       point_x := x, point_y := y, point_z := z\<rparr>))"
proof -
  obtain x y z where xyz: "cartesian ops (distance_of ops laserReturn)
      (cos_lookup_table this (nat az)) (sin_lookup_table this (nat az)) correction = (x, y, z)"
    using prod_cases3 by blast
  show ?thesis
    using computeXYZIR_inside [OF assms(2) azimuth_trig_table [OF assms(1,3,4)] xyz, of point]
    by (simp only: xyz prod.case)
qed





subsection \<open>The bounds of the lookup tables\<close>

lemma table_lookup_bounds:
  assumes "f_eq ops (azimuthCorrection correction) (f_of_int ops 0)"
    and "\<not> outside_window ops this (distance_of ops laserReturn)"
  shows "(\<exists>p. computeXYZIR ops K this point az laserReturn correction = Inr p)
           \<longleftrightarrow> (0 \<le> az \<and> az < int (ROTATION_MAX_UNITS K))"
proof (cases "0 \<le> az \<and> az < int (ROTATION_MAX_UNITS K)")
  case True
  with assms(1) have t: "azimuth_trig ops K this az correction
      = Inr (cos_lookup_table this (nat az), sin_lookup_table this (nat az))"
    by (simp add: azimuth_trig_def)
  obtain x y z where "cartesian ops (distance_of ops laserReturn)
      (cos_lookup_table this (nat az)) (sin_lookup_table this (nat az)) correction = (x, y, z)"
    using prod_cases3 by blast
  from computeXYZIR_inside [OF assms(2) t this, of point] True show ?thesis
    by (cases "at_origin ops (x, y, z)") simp_all
next
  case False
  with assms(1) have "azimuth_trig ops K this az correction = Inl TableIndexOutOfRange"
    by (auto simp add: azimuth_trig_def)
  from computeXYZIR_fault [OF assms(2) this, of point] False show ?thesis
    by simp
qed

lemma azimuth_any:
  assumes "spec_widths K" and "0 < BLOCKS_PER_PACKET K" and "a < 65536"
  shows "\<exists>buf. length buf = PACKET_SIZE K
           \<and> (\<forall>packet. uint (azimuth (blocks (snd (parseRawData K packet buf)) 0)) = int a)"
proof -
  define buf :: "8 word list"
    where "buf = (replicate (PACKET_SIZE K) 0)[2 := of_nat (a mod 256), 3 := of_nat (a div 256)]"
  have len: "length buf = PACKET_SIZE K" by (simp add: buf_def)
  have bo: "block_offset K 0 = 0" by (simp add: block_offset_def)
  from block_in_buffer [OF assms(1,2)] have four: "4 \<le> PACKET_SIZE K"
    by (simp add: bo)
  from assms(3) have hi: "a div 256 < 256" by simp
  have lo: "a mod 256 < 256" by simp
  have b2: "unat (buf ! 2) = a mod 256"
    using four lo by (simp add: buf_def unat_of_nat take_bit_nat_eq_self)
  have b3: "unat (buf ! 3) = a div 256"
    using four hi by (simp add: buf_def unat_of_nat take_bit_nat_eq_self)
  have wf: "wire_field buf 2 2 = a"
    using wire_field_2 [of 2 buf] four len b2 b3 by simp
  have "uint (azimuth (blocks (snd (parseRawData K packet buf)) 0)) = int a" for packet
  proof -
    have "unat (azimuth (blocks (snd (parseRawData K packet buf)) 0))
        = wire_field buf (block_offset K 0 + 2) 2"
      using parse_sob_azimuth_spec(2) [OF len assms(1,2)] .
    then have "unat (azimuth (blocks (snd (parseRawData K packet buf)) 0)) = a"
      by (simp only: bo add_0 wf)
    then show ?thesis by (simp add: uint_nat)
  qed
  with len show ?thesis by blast
qed

lemma laser_body_fault_iff:
  assumes "f_eq ops (azimuthCorrection (laser_corrections (calibration this) j)) (f_of_int ops 0)"
    and "\<not> outside_window ops this (distance_of ops (measures' firing_data j))"
  shows "laser_body ops K this firing_data j pc = Inl TableIndexOutOfRange
           \<longleftrightarrow> int (ROTATION_MAX_UNITS K) \<le> uint (azimuth firing_data)"
proof (cases "uint (azimuth firing_data) < int (ROTATION_MAX_UNITS K)")
  case True
  have "0 \<le> uint (azimuth firing_data)" by simp
  with True table_lookup_bounds [OF assms, of K "fresh_point ops" "uint (azimuth firing_data)"]
  obtain p where "computeXYZIR ops K this (fresh_point ops) (uint (azimuth firing_data))
      (measures' firing_data j) (laser_corrections (calibration this) j) = Inr p"
    by blast
  with True show ?thesis by (simp add: laser_body_def)
next
  case False
  with table_lookup_bounds [OF assms, of K "fresh_point ops" "uint (azimuth firing_data)"]
  have "\<not> (\<exists>p. computeXYZIR ops K this (fresh_point ops) (uint (azimuth firing_data))
      (measures' firing_data j) (laser_corrections (calibration this) j) = Inr p)"
    by simp
  then have "computeXYZIR ops K this (fresh_point ops) (uint (azimuth firing_data))
      (measures' firing_data j) (laser_corrections (calibration this) j)
      = Inl TableIndexOutOfRange"
    by (cases "computeXYZIR ops K this (fresh_point ops) (uint (azimuth firing_data))
      (measures' firing_data j) (laser_corrections (calibration this) j)")
       (auto intro: fault.exhaust)
  with False show ?thesis by (simp add: laser_body_def)
qed


text \<open>
  Claim C10. For a laser whose \<open>azimuthCorrection\<close> is zero, the corrector takes cosine
  and sine from the lookup tables at the index it is given as azimuth, and the converter
  gives it the azimuth of the block. For a measurement inside the range window the
  corrector returns a point, computed from those two table entries, exactly when that
  azimuth is below \<open>ROTATION_MAX_UNITS\<close>, the size of the tables; otherwise the lookup
  leaves the tables, and the converter's pass for the channel faults exactly when the
  azimuth of the block is no index of the tables. The parser does not establish the bound:
  every 16-bit value is the azimuth of block 0 of some buffer of the wire size, so with
  fewer than 65536 azimuth units some buffer of the wire size gives an azimuth that is no
  index of the tables.
\<close>

theorem azimuth_lookup_unchecked:
  fixes ops :: "'f fp_ops"
  assumes "spec_widths K" and "0 < BLOCKS_PER_PACKET K"
  shows "(\<forall>point az laserReturn (correction :: 'f PandarLaserCorrection).
            f_eq ops (azimuthCorrection correction) (f_of_int ops 0)
            \<and> \<not> outside_window ops this (distance_of ops laserReturn)
            \<longrightarrow> ((\<exists>p. computeXYZIR ops K this point az laserReturn correction = Inr p)
                   \<longleftrightarrow> (0 \<le> az \<and> az < int (ROTATION_MAX_UNITS K))))
     \<and> (\<forall>a<65536. \<exists>buf. length buf = PACKET_SIZE K
            \<and> (\<forall>packet. uint (azimuth (blocks (snd (parseRawData K packet buf)) 0)) = int a))
     \<and> (ROTATION_MAX_UNITS K < 65536 \<longrightarrow>
          (\<exists>buf. length buf = PACKET_SIZE K
            \<and> (\<forall>packet. int (ROTATION_MAX_UNITS K)
                  \<le> uint (azimuth (blocks (snd (parseRawData K packet buf)) 0)))))
     \<and> (\<forall>point az laserReturn (correction :: 'f PandarLaserCorrection).
            f_eq ops (azimuthCorrection correction) (f_of_int ops 0)
            \<and> 0 \<le> az \<and> az < int (ROTATION_MAX_UNITS K)
            \<longrightarrow>
            azimuth_trig ops K this az correction
              = Inr (cos_lookup_table this (nat az), sin_lookup_table this (nat az))
            \<and> (\<not> outside_window ops this (distance_of ops laserReturn) \<longrightarrow>
                computeXYZIR ops K this point az laserReturn correction
                  = (case cartesian ops (distance_of ops laserReturn)
                            (cos_lookup_table this (nat az)) (sin_lookup_table this (nat az))
                            correction of
                       (x, y, z) \<Rightarrow>
                         if at_origin ops (x, y, z)
                         then Inr (set_nan ops
                                (point\<lparr>intensity := intensity_of ops laserReturn,
                                       point_x := x, point_y := y, point_z := z\<rparr>))
                         else Inr (point\<lparr>intensity := intensity_of ops laserReturn,
                                    point_x := x, point_y := y, point_z := z\<rparr>))))
     \<and> (\<forall>point az laserReturn (correction :: 'f PandarLaserCorrection).
            f_eq ops (azimuthCorrection correction) (f_of_int ops 0)
            \<and> \<not> outside_window ops this (distance_of ops laserReturn)
            \<and> \<not> (0 \<le> az \<and> az < int (ROTATION_MAX_UNITS K))
            \<longrightarrow> computeXYZIR ops K this point az laserReturn correction
                  = Inl TableIndexOutOfRange)
     \<and> (\<forall>firing_data j pc.
            f_eq ops (azimuthCorrection (laser_corrections (calibration this) j))
              (f_of_int ops 0)
            \<and> \<not> outside_window ops this (distance_of ops (measures' firing_data j))
            \<longrightarrow> (laser_body ops K this firing_data j pc = Inl TableIndexOutOfRange
                   \<longleftrightarrow> int (ROTATION_MAX_UNITS K) \<le> uint (azimuth firing_data)))"
proof -
  have bounds: "(\<exists>p. computeXYZIR ops K this point az laserReturn correction = Inr p)
                   \<longleftrightarrow> (0 \<le> az \<and> az < int (ROTATION_MAX_UNITS K))"
    if "f_eq ops (azimuthCorrection correction) (f_of_int ops 0)
            \<and> \<not> outside_window ops this (distance_of ops laserReturn)"
    for point az laserReturn and correction :: "'f PandarLaserCorrection"
    using that table_lookup_bounds by blast
  have any: "\<exists>buf. length buf = PACKET_SIZE K
            \<and> (\<forall>packet. uint (azimuth (blocks (snd (parseRawData K packet buf)) 0)) = int a)"
    if "a < 65536" for a
    using that by (rule azimuth_any [OF assms])
  have beyond: "\<exists>buf. length buf = PACKET_SIZE K
            \<and> (\<forall>packet. int (ROTATION_MAX_UNITS K)
                  \<le> uint (azimuth (blocks (snd (parseRawData K packet buf)) 0)))"
    if "ROTATION_MAX_UNITS K < 65536"
    using azimuth_any [OF assms that] by auto
  have table: "azimuth_trig ops K this az correction
              = Inr (cos_lookup_table this (nat az), sin_lookup_table this (nat az))
            \<and> (\<not> outside_window ops this (distance_of ops laserReturn) \<longrightarrow>
                computeXYZIR ops K this point az laserReturn correction
                  = (case cartesian ops (distance_of ops laserReturn)
                            (cos_lookup_table this (nat az)) (sin_lookup_table this (nat az))
                            correction of
                       (x, y, z) \<Rightarrow>
                         if at_origin ops (x, y, z)
                         then Inr (set_nan ops
                                (point\<lparr>intensity := intensity_of ops laserReturn,
                                       point_x := x, point_y := y, point_z := z\<rparr>))
                         else Inr (point\<lparr>intensity := intensity_of ops laserReturn,
                                    point_x := x, point_y := y, point_z := z\<rparr>)))"
    if h: "f_eq ops (azimuthCorrection correction) (f_of_int ops 0)
            \<and> 0 \<le> az \<and> az < int (ROTATION_MAX_UNITS K)"
    for point az laserReturn and correction :: "'f PandarLaserCorrection"
  proof -
    from h have z: "f_eq ops (azimuthCorrection correction) (f_of_int ops 0)"
      and lo: "0 \<le> az" and hi: "az < int (ROTATION_MAX_UNITS K)" by simp_all
    show ?thesis
      using azimuth_trig_table [OF z lo hi, of this]
        computeXYZIR_table [OF z _ lo hi, of this laserReturn point]
      by blast
  qed
  have outside: "computeXYZIR ops K this point az laserReturn correction
                  = Inl TableIndexOutOfRange"
    if h: "f_eq ops (azimuthCorrection correction) (f_of_int ops 0)
            \<and> \<not> outside_window ops this (distance_of ops laserReturn)
            \<and> \<not> (0 \<le> az \<and> az < int (ROTATION_MAX_UNITS K))"
    for point az laserReturn and correction :: "'f PandarLaserCorrection"
  proof -
    from h have "azimuth_trig ops K this az correction = Inl TableIndexOutOfRange"
      by (auto simp add: azimuth_trig_def)
    with h show ?thesis by (simp add: computeXYZIR_fault)
  qed
  have body: "laser_body ops K this firing_data j pc = Inl TableIndexOutOfRange
                   \<longleftrightarrow> int (ROTATION_MAX_UNITS K) \<le> uint (azimuth firing_data)"
    if "f_eq ops (azimuthCorrection (laser_corrections (calibration this) j))
              (f_of_int ops 0)
            \<and> \<not> outside_window ops this (distance_of ops (measures' firing_data j))"
    for firing_data j pc
    using that laser_body_fault_iff by blast
  from bounds any beyond table outside body show ?thesis
    by (intro conjI allI impI) blast+
qed

lemma wide_azimuth_buf_facts:
  "length wide_azimuth_buf = PACKET_SIZE pandar40"
  "wire_field wide_azimuth_buf 2 2 = 65535"
  "wire_field wide_azimuth_buf 4 3 = 1000"
  "wire_field wide_azimuth_buf 7 2 = 0"
  by (simp_all add: wide_azimuth_buf_def pandar40_facts wire_field_def)

theorem azimuth_lookup_unchecked_witness:
  "spec_widths pandar40 \<and> 0 < BLOCKS_PER_PACKET pandar40
   \<and> length wide_azimuth_buf = PACKET_SIZE pandar40
   \<and> uint (azimuth (blocks (snd (parseRawData pandar40 zero_packet wide_azimuth_buf)) 0))
        = 65535
   \<and> measures' (blocks (snd (parseRawData pandar40 zero_packet wide_azimuth_buf)) 0) 0
        = \<lparr>range' = 1000, reflectivity = 0\<rparr>
   \<and> f_eq ideal_ops (azimuthCorrection zero_correction) (f_of_int ideal_ops 0)
   \<and> \<not> outside_window ideal_ops (ideal_state (Fin 0.5) (Fin 100) zero_correction)
        (distance_of ideal_ops \<lparr>range' = 1000, reflectivity = 0\<rparr>)
   \<and> corrected_point ideal_ops pandar40 (ideal_state (Fin 0.5) (Fin 100) zero_correction)
        (snd (parseRawData pandar40 zero_packet wide_azimuth_buf)) 0 0
      = Inl TableIndexOutOfRange
   \<and> unpack ideal_ops pandar40 (ideal_state (Fin 0.5) (Fin 100) zero_correction)
        zero_packet wide_azimuth_buf empty_cloud
      = Inl TableIndexOutOfRange"
proof -
  let ?st = "ideal_state (Fin 0.5) (Fin 100) zero_correction"
  let ?p = "snd (parseRawData pandar40 zero_packet wide_azimuth_buf)"
  let ?m = "\<lparr>range' = 1000, reflectivity = 0\<rparr>"
  have i: "0 < BLOCKS_PER_PACKET pandar40" and j: "0 < LASER_COUNT pandar40"
    by (simp_all add: pandar40_facts)
  have "unat (azimuth (blocks ?p 0)) = 65535"
    using parse_sob_azimuth_spec(2) [OF wide_azimuth_buf_facts(1) pandar40_facts(1) i,
        of zero_packet]
    by (simp only: pandar40_facts add_0 wide_azimuth_buf_facts)
  then have az: "uint (azimuth (blocks ?p 0)) = 65535"
    by (simp add: uint_nat)
  have m: "measures' (blocks ?p 0) 0 = ?m"
    using parse_measure_spec [OF wide_azimuth_buf_facts(1) pandar40_facts(1) i j,
        of zero_packet]
    by (simp only: pandar40_facts wide_azimuth_buf_facts)
       (simp add: wide_azimuth_buf_facts spec_measure_def invalid_return_def)
  have zc: "f_eq ideal_ops (azimuthCorrection zero_correction) (f_of_int ideal_ops 0)"
    by (simp add: ideal_defs)
  have ins: "\<not> outside_window ideal_ops ?st (distance_of ideal_ops ?m)"
    by (simp add: outside_window_def distance_of_def f_gt_def ideal_defs)
  have corr: "laser_corrections (calibration ?st) 0 = zero_correction"
    by (simp add: ideal_state_def)
  from azimuth_lookup_unchecked [OF pandar40_facts(1) i, where ops = ideal_ops
      and this = ?st, THEN conjunct1, rule_format,
      of zero_correction ?m "fresh_point ideal_ops" 65535] zc ins
  have "\<not> (\<exists>p. computeXYZIR ideal_ops pandar40 ?st (fresh_point ideal_ops) 65535 ?m
      zero_correction = Inr p)"
    by (simp add: pandar40_facts)
  then have c: "computeXYZIR ideal_ops pandar40 ?st (fresh_point ideal_ops) 65535 ?m
      zero_correction = Inl TableIndexOutOfRange"
    by (cases "computeXYZIR ideal_ops pandar40 ?st (fresh_point ideal_ops) 65535 ?m
      zero_correction") (auto intro: fault.exhaust)
  have cp: "corrected_point ideal_ops pandar40 ?st ?p 0 0 = Inl TableIndexOutOfRange"
    by (simp only: corrected_point_def az m corr c)
  have "faults ideal_ops pandar40 ?st ?p (0, 0)"
    by (simp only: faults_def fst_conv snd_conv cp)
  then have "\<exists>i' \<in> set [0..<BLOCKS_PER_PACKET pandar40].
      \<exists>k \<in> set [0..<LASER_COUNT pandar40]. faults ideal_ops pandar40 ?st ?p (i', k)"
    using i j by (intro bexI [of _ 0]) simp_all
  then have "toPointClouds ideal_ops pandar40 ?st ?p empty_cloud = Inl TableIndexOutOfRange"
    by (simp only: toPointClouds_def firings_loop_emitted if_True)
  then have u: "unpack ideal_ops pandar40 ?st zero_packet wide_azimuth_buf empty_cloud
      = Inl TableIndexOutOfRange"
    by (simp add: unpack_def split_beta)
  from pandar40_facts(1) i wide_azimuth_buf_facts(1) az m zc ins cp u show ?thesis
    by (intro conjI)
qed


subsection \<open>A buffer of the wrong size\<close>

lemma concat_map_single:
  assumes "0 < n"
  shows "concat (map (\<lambda>k. if k = 0 then [p] else []) [0..<n]) = [p]"
proof -
  from assms have "[0..<n] = 0 # [Suc 0..<n]" by (rule upt_conv_Cons)
  moreover have "concat (map (\<lambda>k. if k = 0 then [p] else []) [Suc 0..<n]) = []"
    by simp
  ultimately show ?thesis by simp
qed

lemma stale_packet_points:
  fixes p q :: "'f PPoint"
  assumes "0 < BLOCKS_PER_PACKET K" and "0 < LASER_COUNT K"
    and "\<And>i j. emitted ops K this packet (i, j) = (if i = 0 \<and> j = 0 then [p] else [])"
  shows "concat (map (\<lambda>i. concat (map (\<lambda>j. emitted ops K this packet (i, j))
                                     [0..<LASER_COUNT K]))
                   [0..<BLOCKS_PER_PACKET K]) = [p]"
proof -
  have inner: "concat (map (\<lambda>j. emitted ops K this packet (i, j)) [0..<LASER_COUNT K])
      = (if i = 0 then [p] else [])" for i
    using concat_map_single [OF assms(2), of p] by (simp add: assms(3))
  show ?thesis
    using concat_map_single [OF assms(1), of p] by (simp only: inner)
qed

text \<open>
  Claim C1, on the code. For a buffer whose length is not the wire size, \<open>parseRawData\<close>
  returns \<open>-1\<close> and leaves the packet as it was. \<open>unpack\<close> drops that return code and
  converts the packet all the same: its result is the conversion of whatever the storage
  of its local packet held before the call, so it appends the points found there.
\<close>

theorem unpack_size_mismatch:
  assumes "length buf \<noteq> PACKET_SIZE K"
  shows "parseRawData K packet buf = (- 1, packet)
     \<and> unpack ops K this stack buf pc = toPointClouds ops K this stack pc"
  using assms by (simp add: unpack_def parse_size_mismatch)

theorem unpack_size_mismatch_witness:
  "length ([] :: 8 word list) \<noteq> PACKET_SIZE pandar40
   \<and> parseRawData pandar40 stale_packet [] = (- 1, stale_packet)
   \<and> unpack ideal_ops pandar40 (ideal_state (Fin 0.5) (Fin 100) zero_correction)
        stale_packet [] empty_cloud
      = Inr \<lparr>points = [\<lparr>point_x = Fin 0, point_y = Fin 50, point_z = Fin 0,
                          intensity = Fin 18, ring = 0\<rparr>],
             width = 1\<rparr>"
proof -
  let ?st = "ideal_state (Fin 0.5) (Fin 100) zero_correction"
  let ?pt = "\<lparr>point_x = Fin 0, point_y = Fin 50, point_z = Fin 0, intensity = Fin 18,
      ring = 0\<rparr> :: ideal PPoint"
  have len: "length ([] :: 8 word list) \<noteq> PACKET_SIZE pandar40"
    by (simp add: pandar40_facts)
  have i: "0 < BLOCKS_PER_PACKET pandar40" and j: "0 < LASER_COUNT pandar40"
    by (simp_all add: pandar40_facts)
  have cp: "corrected_point ideal_ops pandar40 ?st stale_packet i j
      = (if i = 0 \<and> j = 0 then Inr ?pt
         else Inr \<lparr>point_x = NaN, point_y = NaN, point_z = NaN, intensity = Fin 0,
                   ring = 0\<rparr>)" for i j
    by (simp add: corrected_point_def stale_packet_def zero_packet_def corrector_defs
          ideal_defs pandar40_def)
  have em: "emitted ideal_ops pandar40 ?st stale_packet (i, j)
      = (if i = 0 \<and> j = 0 then [?pt] else [])" for i j
    by (simp only: emitted_def fst_conv snd_conv cp)
       (simp add: has_nan_def ideal_ops_def)
  have nf: "\<not> faults ideal_ops pandar40 ?st stale_packet ij" for ij
    by (cases ij) (simp only: faults_def fst_conv snd_conv cp, simp)
  have t: "toPointClouds ideal_ops pandar40 ?st stale_packet empty_cloud
      = Inr \<lparr>points = [?pt], width = 1\<rparr>"
    by (simp only: toPointClouds_def firings_loop_emitted nf bex_simps if_False
          stale_packet_points [OF i j em])
       (simp add: push_all_def empty_cloud_def)
  from unpack_size_mismatch [OF len, of stale_packet ideal_ops ?st stale_packet empty_cloud]
    len t
  show ?thesis by (simp only: simp_thms)
qed
end
